theory Spec2Isabelle
  imports Main "HOL-Library.Sublist"
begin

section \<open>Data model\<close>

text \<open>
  A Go \<open>error\<close> is modelled by its message; \<open>nil\<close> is \<open>None\<close>.  A Go call returning
  \<open>(value, error)\<close> returns the pair \<open>(value, err)\<close>: the value is there even when
  \<open>err\<close> is not \<open>nil\<close>, as in Go.
\<close>

type_synonym error = string

text \<open>
  The \<open>storage\<close> package is not among the source files.  The records below declare the
  fields that \<open>gcp_up.go\<close> and \<open>state_query.go\<close> read and write, under the names the
  code uses; a field name that two structs share carries a prefix in all but the first.
  Opaque documents (the terraform state, the director's state and manifest, a cloud
  config) are strings.
\<close>

record GCP =
  ServiceAccountKey :: string
  ProjectID :: string
  Zone :: string
  Region :: string

text \<open>Modelled from the spec: \<open>storage.KeyPair\<close> is declared outside the source files;
  the spec gives it as \<open>{publicKey, privateKey}\<close>.\<close>

record KeyPair =
  PublicKey :: string
  PrivateKey :: string

record BOSH =
  DirectorName :: string
  DirectorAddress :: string
  DirectorUsername :: string
  DirectorPassword :: string
  DirectorSSLCA :: string
  DirectorSSLCertificate :: string
  DirectorSSLPrivateKey :: string
  Credentials :: "(string \<times> string) list"
  State :: string
  Manifest :: string

record Jumpbox =
  Enabled :: bool
  URL :: string

record Stack =
  Name :: string

record State =
  IAAS :: string
  GCP :: GCP
  KeyPair :: KeyPair
  EnvID :: string
  TFState :: string
  BOSH :: BOSH
  NoDirector :: bool
  Jumpbox :: Jumpbox
  Stack :: Stack

record GCPUpConfig =
  ServiceAccountKeyPath :: string
  cfgProjectID :: string
  cfgZone :: string
  cfgRegion :: string

text \<open>The \<open>boshinit\<close> and \<open>cloudconfig/gcp\<close> packages are not among the source files
  either; these are the fields \<open>GCPUp.Execute\<close> fills in and reads.\<close>

record InfrastructureConfigurationGCP =
  icZone :: string
  NetworkName :: string
  SubnetworkName :: string
  BOSHTag :: string
  InternalTag :: string
  Project :: string
  JsonKey :: string

record InfrastructureConfiguration =
  ElasticIP :: string
  icGCP :: InfrastructureConfigurationGCP

record DeployInput =
  diDirectorName :: string
  diDirectorUsername :: string
  diDirectorPassword :: string

record SSLKeyPair =
  CA :: string
  Certificate :: string
  sslPrivateKey :: string

record DeployOutput =
  DirectorSSLKeyPair :: SSLKeyPair
  doCredentials :: "(string \<times> string) list"
  BOSHInitState :: string
  BOSHInitManifest :: string

record CloudConfigInput =
  AZs :: "string list"
  Tags :: "string list"
  cciNetworkName :: string
  cciSubnetworkName :: string

type_synonym CloudConfig = string

section \<open>Collaborators and the trace of a run\<close>

text \<open>
  Every call that leaves \<open>GCPUp.Execute\<close> is an event of the trace, with its arguments
  and what it returned.
\<close>

datatype event =
    EvReadFile string "string \<times> error option"
  | EvSet State "error option"
  | EvSetConfig string "error option"
  | EvUpdate string "KeyPair \<times> error option"
  | EvTempDir "string \<times> error option"
  | EvWriteFile string string "error option"
  | EvApply string string string string string string string "string \<times> error option"
  | EvGet string string "string \<times> error option"
  | EvNewDeployInput State InfrastructureConfiguration string string "DeployInput \<times> error option"
  | EvDeploy DeployInput "DeployOutput \<times> error option"
  | EvStep string
  | EvGenerate CloudConfigInput "CloudConfig \<times> error option"
  | EvMarshal CloudConfig "string \<times> error option"
  | EvUpdateCloudConfig "string \<times> string \<times> string" string "error option"

text \<open>
  The collaborators of \<open>GCPUp\<close> are interfaces whose implementations talk to the cloud
  and the file system.  Each is a function of its arguments and of the world \<open>'w\<close> it
  runs in, returning its result and the world it leaves.  The client that
  \<open>boshClientProvider.Client\<close> builds is the triple of its arguments.  \<open>KeyPair_IsEmpty\<close>,
  \<open>BOSH_IsEmpty\<close> (methods of the \<open>storage\<close> package), \<open>json_Unmarshal\<close>,
  \<open>filepath_Join\<close> and the package variable \<open>terraformTemplate\<close> are not among the
  source files and are taken as they come.
\<close>

record 'w GCPUp =
  stateStore_Set :: "State \<Rightarrow> 'w \<Rightarrow> error option \<times> 'w"
  keyPairUpdater_Update :: "string \<Rightarrow> 'w \<Rightarrow> (KeyPair \<times> error option) \<times> 'w"
  gcpProvider_SetConfig :: "string \<Rightarrow> 'w \<Rightarrow> error option \<times> 'w"
  terraformApplier_Apply ::
    "string \<Rightarrow> string \<Rightarrow> string \<Rightarrow> string \<Rightarrow> string \<Rightarrow> string \<Rightarrow> string \<Rightarrow> 'w
      \<Rightarrow> (string \<times> error option) \<times> 'w"
  boshDeployer_Deploy :: "DeployInput \<Rightarrow> 'w \<Rightarrow> (DeployOutput \<times> error option) \<times> 'w"
  boshinit_NewDeployInput ::
    "State \<Rightarrow> InfrastructureConfiguration \<Rightarrow> string \<Rightarrow> string \<Rightarrow> 'w
      \<Rightarrow> (DeployInput \<times> error option) \<times> 'w"
  logger_Step :: "string \<Rightarrow> 'w \<Rightarrow> unit \<times> 'w"
  boshClient_UpdateCloudConfig ::
    "string \<times> string \<times> string \<Rightarrow> string \<Rightarrow> 'w \<Rightarrow> error option \<times> 'w"
  cloudConfigGenerator_Generate ::
    "CloudConfigInput \<Rightarrow> 'w \<Rightarrow> (CloudConfig \<times> error option) \<times> 'w"
  terraformOutputer_Get :: "string \<Rightarrow> string \<Rightarrow> 'w \<Rightarrow> (string \<times> error option) \<times> 'w"
  writeFile :: "string \<Rightarrow> string \<Rightarrow> 'w \<Rightarrow> error option \<times> 'w"
  tempDir :: "'w \<Rightarrow> (string \<times> error option) \<times> 'w"
  marshal :: "CloudConfig \<Rightarrow> 'w \<Rightarrow> (string \<times> error option) \<times> 'w"
  ioutil_ReadFile :: "string \<Rightarrow> 'w \<Rightarrow> (string \<times> error option) \<times> 'w"
  json_Unmarshal :: "string \<Rightarrow> error option"
  filepath_Join :: "string \<Rightarrow> string \<Rightarrow> string"
  terraformTemplate :: string
  KeyPair_IsEmpty :: "KeyPair \<Rightarrow> bool"
  BOSH_IsEmpty :: "BOSH \<Rightarrow> bool"

record 'w run =
  world :: 'w
  trace :: "event list"

definition call :: "('w \<Rightarrow> 'a \<times> 'w) \<Rightarrow> ('a \<Rightarrow> event) \<Rightarrow> 'w run \<Rightarrow> 'a \<times> 'w run" where
  "call f ev \<rho> =
     (case f (world \<rho>) of (a, w') \<Rightarrow> (a, \<lparr>world = w', trace = trace \<rho> @ [ev a]\<rparr>))"

section \<open>\<open>commands/gcp_up.go\<close>\<close>

definition empty_config :: "GCPUpConfig \<Rightarrow> bool" where
  "empty_config c \<longleftrightarrow>
     ServiceAccountKeyPath c = '''' \<and> cfgProjectID c = '''' \<and> cfgRegion c = '''' \<and> cfgZone c = ''''"

definition validateState :: "State \<Rightarrow> error option" where
  "validateState state =
     (if ServiceAccountKey (GCP state) = '''' then Some ''GCP service account key must be provided''
      else if ProjectID (GCP state) = '''' then Some ''GCP project ID must be provided''
      else if Region (GCP state) = '''' then Some ''GCP region must be provided''
      else if Zone (GCP state) = '''' then Some ''GCP zone must be provided''
      else None)"

definition emptyGCP :: GCP where
  "emptyGCP = \<lparr>ServiceAccountKey = '''', ProjectID = '''', Zone = '''', Region = ''''\<rparr>"

definition parseUpConfig :: "'w GCPUp \<Rightarrow> GCPUpConfig \<Rightarrow> 'w run \<Rightarrow> (GCP \<times> error option) \<times> 'w run" where
  "parseUpConfig u upConfig \<rho> =
     (if ServiceAccountKeyPath upConfig = ''''
      then ((emptyGCP, Some ''GCP service account key must be provided''), \<rho>)
      else
       (case call (ioutil_ReadFile u (ServiceAccountKeyPath upConfig))
                  (EvReadFile (ServiceAccountKeyPath upConfig)) \<rho> of
          ((sak, Some err), \<rho>) \<Rightarrow>
            ((emptyGCP, Some (''error reading service account key: '' @ err)), \<rho>)
        | ((sak, None), \<rho>) \<Rightarrow>
       (case json_Unmarshal u sak of
          Some err \<Rightarrow> ((emptyGCP, Some (''error parsing service account key: '' @ err)), \<rho>)
        | None \<Rightarrow>
            ((\<lparr>ServiceAccountKey = sak, ProjectID = cfgProjectID upConfig,
               Zone = cfgZone upConfig, Region = cfgRegion upConfig\<rparr>, None), \<rho>))))"

definition azs_table :: "(string \<times> string list) list" where
  "azs_table =
     [(''us-west1'', [''us-west1-a'', ''us-west1-b'']),
      (''us-central1'', [''us-central1-a'', ''us-central1-b'', ''us-central1-c'', ''us-central1-f'']),
      (''us-east1'', [''us-east1-b'', ''us-east1-c'', ''us-east1-d'']),
      (''europe-west1'', [''europe-west1-b'', ''europe-west1-c'', ''europe-west1-d'']),
      (''asia-east1'', [''asia-east1-a'', ''asia-east1-b'', ''asia-east1-c'']),
      (''asia-northeast1'', [''asia-northeast1-a'', ''asia-northeast1-b'', ''asia-northeast1-c''])]"

text \<open>Indexing a Go map with a key it does not hold gives the zero value, here the
  \<open>nil\<close> slice, which is the empty list.\<close>

definition getAZs :: "string \<Rightarrow> string list" where
  "getAZs region = (case map_of azs_table region of None \<Rightarrow> [] | Some zs \<Rightarrow> zs)"

text \<open>
  \<open>GCPUp.Execute\<close>.  Go passes \<open>state\<close> by value, so the caller sees the returned
  error only; what the run did is in the trace.  Each \<open>case\<close> below is one
  \<open>if err != nil { return err }\<close> of the source, in the source's order.
\<close>

definition Execute :: "'w GCPUp \<Rightarrow> GCPUpConfig \<Rightarrow> State \<Rightarrow> 'w run \<Rightarrow> error option \<times> 'w run" where
  "Execute u upConfig state \<rho> =
   (case (if \<not> empty_config upConfig
          then (case parseUpConfig u upConfig \<rho> of
                  ((gcpDetails, Some err), \<rho>) \<Rightarrow> (Some err, state, \<rho>)
                | ((gcpDetails, None), \<rho>) \<Rightarrow>
                    (None, state\<lparr>IAAS := ''gcp'', GCP := gcpDetails\<rparr>, \<rho>))
          else (None, state, \<rho>)) of
      (Some err, state, \<rho>) \<Rightarrow> (Some err, \<rho>)
    | (None, state, \<rho>) \<Rightarrow>
   (case validateState state of
      Some err \<Rightarrow> (Some err, \<rho>)
    | None \<Rightarrow>
   (case call (stateStore_Set u state) (EvSet state) \<rho> of
      (Some err, \<rho>) \<Rightarrow> (Some err, \<rho>)
    | (None, \<rho>) \<Rightarrow>
   (case call (gcpProvider_SetConfig u (ServiceAccountKey (GCP state)))
              (EvSetConfig (ServiceAccountKey (GCP state))) \<rho> of
      (Some err, \<rho>) \<Rightarrow> (Some err, \<rho>)
    | (None, \<rho>) \<Rightarrow>
   (case (if KeyPair_IsEmpty u (KeyPair state)
          then (case call (keyPairUpdater_Update u (ProjectID (GCP state)))
                          (EvUpdate (ProjectID (GCP state))) \<rho> of
                  ((keyPair, Some err), \<rho>) \<Rightarrow> (Some err, state, \<rho>)
                | ((keyPair, None), \<rho>) \<Rightarrow>
                    (case call (stateStore_Set u (state\<lparr>KeyPair := keyPair\<rparr>))
                               (EvSet (state\<lparr>KeyPair := keyPair\<rparr>)) \<rho> of
                       (Some err, \<rho>) \<Rightarrow> (Some err, state\<lparr>KeyPair := keyPair\<rparr>, \<rho>)
                     | (None, \<rho>) \<Rightarrow> (None, state\<lparr>KeyPair := keyPair\<rparr>, \<rho>)))
          else (None, state, \<rho>)) of
      (Some err, state, \<rho>) \<Rightarrow> (Some err, \<rho>)
    | (None, state, \<rho>) \<Rightarrow>
   (case call (tempDir u) EvTempDir \<rho> of
      ((tmpDir, Some err), \<rho>) \<Rightarrow> (Some err, \<rho>)
    | ((tmpDir, None), \<rho>) \<Rightarrow>
   (let serviceAccountKeyPath = filepath_Join u tmpDir ''credentials.json'' in
   (case call (writeFile u serviceAccountKeyPath (ServiceAccountKey (GCP state)))
              (EvWriteFile serviceAccountKeyPath (ServiceAccountKey (GCP state))) \<rho> of
      (Some err, \<rho>) \<Rightarrow> (Some err, \<rho>)
    | (None, \<rho>) \<Rightarrow>
   (case call (terraformApplier_Apply u serviceAccountKeyPath (EnvID state)
                 (ProjectID (GCP state)) (Zone (GCP state)) (Region (GCP state))
                 (terraformTemplate u) (TFState state))
              (EvApply serviceAccountKeyPath (EnvID state)
                 (ProjectID (GCP state)) (Zone (GCP state)) (Region (GCP state))
                 (terraformTemplate u) (TFState state)) \<rho> of
      ((tfState, Some err), \<rho>) \<Rightarrow> (Some err, \<rho>)
    | ((tfState, None), \<rho>) \<Rightarrow>
   (let state = state\<lparr>TFState := tfState\<rparr> in
   (case call (stateStore_Set u state) (EvSet state) \<rho> of
      (Some err, \<rho>) \<Rightarrow> (Some err, \<rho>)
    | (None, \<rho>) \<Rightarrow>
   (case call (terraformOutputer_Get u (TFState state) ''external_ip'')
              (EvGet (TFState state) ''external_ip'') \<rho> of
      ((externalIP, Some err), \<rho>) \<Rightarrow> (Some err, \<rho>)
    | ((externalIP, None), \<rho>) \<Rightarrow>
   (case call (terraformOutputer_Get u (TFState state) ''network_name'')
              (EvGet (TFState state) ''network_name'') \<rho> of
      ((networkName, Some err), \<rho>) \<Rightarrow> (Some err, \<rho>)
    | ((networkName, None), \<rho>) \<Rightarrow>
   (case call (terraformOutputer_Get u (TFState state) ''subnetwork_name'')
              (EvGet (TFState state) ''subnetwork_name'') \<rho> of
      ((subnetworkName, Some err), \<rho>) \<Rightarrow> (Some err, \<rho>)
    | ((subnetworkName, None), \<rho>) \<Rightarrow>
   (case call (terraformOutputer_Get u (TFState state) ''bosh_open_tag_name'')
              (EvGet (TFState state) ''bosh_open_tag_name'') \<rho> of
      ((boshTag, Some err), \<rho>) \<Rightarrow> (Some err, \<rho>)
    | ((boshTag, None), \<rho>) \<Rightarrow>
   (case call (terraformOutputer_Get u (TFState state) ''internal_tag_name'')
              (EvGet (TFState state) ''internal_tag_name'') \<rho> of
      ((internalTag, Some err), \<rho>) \<Rightarrow> (Some err, \<rho>)
    | ((internalTag, None), \<rho>) \<Rightarrow>
   (case call (terraformOutputer_Get u (TFState state) ''director_address'')
              (EvGet (TFState state) ''director_address'') \<rho> of
      ((directorAddress, Some err), \<rho>) \<Rightarrow> (Some err, \<rho>)
    | ((directorAddress, None), \<rho>) \<Rightarrow>
   (let infrastructureConfiguration =
          \<lparr>ElasticIP = externalIP,
           icGCP = \<lparr>icZone = Zone (GCP state), NetworkName = networkName,
                    SubnetworkName = subnetworkName, BOSHTag = boshTag,
                    InternalTag = internalTag, Project = ProjectID (GCP state),
                    JsonKey = ServiceAccountKey (GCP state)\<rparr>\<rparr> in
   (case call (boshinit_NewDeployInput u state infrastructureConfiguration (EnvID state) ''gcp'')
              (EvNewDeployInput state infrastructureConfiguration (EnvID state) ''gcp'') \<rho> of
      ((deployInput, Some err), \<rho>) \<Rightarrow> (Some err, \<rho>)
    | ((deployInput, None), \<rho>) \<Rightarrow>
   (case call (boshDeployer_Deploy u deployInput) (EvDeploy deployInput) \<rho> of
      ((deployOutput, Some err), \<rho>) \<Rightarrow> (Some err, \<rho>)
    | ((deployOutput, None), \<rho>) \<Rightarrow>
   (let state =
          (if BOSH_IsEmpty u (BOSH state)
           then state\<lparr>BOSH :=
                  \<lparr>DirectorName = diDirectorName deployInput,
                   DirectorAddress = directorAddress,
                   DirectorUsername = diDirectorUsername deployInput,
                   DirectorPassword = diDirectorPassword deployInput,
                   DirectorSSLCA = CA (DirectorSSLKeyPair deployOutput),
                   DirectorSSLCertificate = Certificate (DirectorSSLKeyPair deployOutput),
                   DirectorSSLPrivateKey = sslPrivateKey (DirectorSSLKeyPair deployOutput),
                   Credentials = doCredentials deployOutput,
                   State = '''', Manifest = ''''\<rparr>\<rparr>
           else state);
        state = state\<lparr>BOSH := (BOSH state)\<lparr>State := BOSHInitState deployOutput\<rparr>\<rparr>;
        state = state\<lparr>BOSH := (BOSH state)\<lparr>Manifest := BOSHInitManifest deployOutput\<rparr>\<rparr> in
   (case call (stateStore_Set u state) (EvSet state) \<rho> of
      (Some err, \<rho>) \<Rightarrow> (Some err, \<rho>)
    | (None, \<rho>) \<Rightarrow>
   (let boshClient = (DirectorAddress (BOSH state), DirectorUsername (BOSH state),
                      DirectorPassword (BOSH state)) in
   (case call (logger_Step u ''generating cloud config'')
              (\<lambda>_. EvStep ''generating cloud config'') \<rho> of
      (_, \<rho>) \<Rightarrow>
   (let azs = getAZs (Region (GCP state)) in
   (case call (cloudConfigGenerator_Generate u
                 \<lparr>AZs = azs, Tags = [internalTag], cciNetworkName = networkName,
                  cciSubnetworkName = subnetworkName\<rparr>)
              (EvGenerate
                 \<lparr>AZs = azs, Tags = [internalTag], cciNetworkName = networkName,
                  cciSubnetworkName = subnetworkName\<rparr>) \<rho> of
      ((cloudConfig, Some err), \<rho>) \<Rightarrow> (Some err, \<rho>)
    | ((cloudConfig, None), \<rho>) \<Rightarrow>
   (case call (marshal u cloudConfig) (EvMarshal cloudConfig) \<rho> of
      ((manifestYAML, Some err), \<rho>) \<Rightarrow> (Some err, \<rho>)
    | ((manifestYAML, None), \<rho>) \<Rightarrow>
   (case call (logger_Step u ''applying cloud config'')
              (\<lambda>_. EvStep ''applying cloud config'') \<rho> of
      (_, \<rho>) \<Rightarrow>
   (case call (boshClient_UpdateCloudConfig u boshClient manifestYAML)
              (EvUpdateCloudConfig boshClient manifestYAML) \<rho> of
      (Some err, \<rho>) \<Rightarrow> (Some err, \<rho>)
    | (None, \<rho>) \<Rightarrow> (None, \<rho>))))))))))))))))))))))))))))))"

text \<open>A run of the command starts in some world with nothing done yet; what can be
  seen of it afterwards is the error it returned and the calls it made.\<close>

definition start :: "'w \<Rightarrow> 'w run" where
  "start w = \<lparr>world = w, trace = []\<rparr>"

definition events :: "error option \<times> 'w run \<Rightarrow> event list" where
  "events r = trace (snd r)"

definition up :: "'w GCPUp \<Rightarrow> GCPUpConfig \<Rightarrow> State \<Rightarrow> 'w \<Rightarrow> error option \<times> event list" where
  "up u upConfig state w =
     (fst (Execute u upConfig state (start w)), events (Execute u upConfig state (start w)))"

subsection \<open>The body of \<open>Execute\<close>, from each step on\<close>

text \<open>
  \<open>Execute\<close> is one long function.  For the proofs its body is cut at six points: each
  definition below is the body of \<open>Execute\<close> from one step on, word for word, with the
  variables that are live at the cut as parameters.  Lemma \<open>Execute_staged\<close> puts the
  parts together again.
\<close>

definition Execute_cloudConfig ::
    "'w GCPUp \<Rightarrow> State \<Rightarrow> string \<Rightarrow> string \<Rightarrow> string \<Rightarrow> 'w run \<Rightarrow> error option \<times> 'w run" where
  "Execute_cloudConfig u state networkName subnetworkName internalTag \<rho> =
   (let boshClient = (DirectorAddress (BOSH state), DirectorUsername (BOSH state),
                      DirectorPassword (BOSH state)) in
   (case call (logger_Step u ''generating cloud config'')
              (\<lambda>_. EvStep ''generating cloud config'') \<rho> of
      (_, \<rho>) \<Rightarrow>
   (let azs = getAZs (Region (GCP state)) in
   (case call (cloudConfigGenerator_Generate u
                 \<lparr>AZs = azs, Tags = [internalTag], cciNetworkName = networkName,
                  cciSubnetworkName = subnetworkName\<rparr>)
              (EvGenerate
                 \<lparr>AZs = azs, Tags = [internalTag], cciNetworkName = networkName,
                  cciSubnetworkName = subnetworkName\<rparr>) \<rho> of
      ((cloudConfig, Some err), \<rho>) \<Rightarrow> (Some err, \<rho>)
    | ((cloudConfig, None), \<rho>) \<Rightarrow>
   (case call (marshal u cloudConfig) (EvMarshal cloudConfig) \<rho> of
      ((manifestYAML, Some err), \<rho>) \<Rightarrow> (Some err, \<rho>)
    | ((manifestYAML, None), \<rho>) \<Rightarrow>
   (case call (logger_Step u ''applying cloud config'')
              (\<lambda>_. EvStep ''applying cloud config'') \<rho> of
      (_, \<rho>) \<Rightarrow>
   (case call (boshClient_UpdateCloudConfig u boshClient manifestYAML)
              (EvUpdateCloudConfig boshClient manifestYAML) \<rho> of
      (Some err, \<rho>) \<Rightarrow> (Some err, \<rho>)
    | (None, \<rho>) \<Rightarrow> (None, \<rho>))))))))"

definition Execute_deploy ::
    "'w GCPUp \<Rightarrow> State \<Rightarrow> string \<Rightarrow> string \<Rightarrow> string \<Rightarrow> string \<Rightarrow> string \<Rightarrow> string
      \<Rightarrow> 'w run \<Rightarrow> error option \<times> 'w run" where
  "Execute_deploy u state externalIP networkName subnetworkName boshTag internalTag directorAddress \<rho> =
   (let infrastructureConfiguration =
          \<lparr>ElasticIP = externalIP,
           icGCP = \<lparr>icZone = Zone (GCP state), NetworkName = networkName,
                    SubnetworkName = subnetworkName, BOSHTag = boshTag,
                    InternalTag = internalTag, Project = ProjectID (GCP state),
                    JsonKey = ServiceAccountKey (GCP state)\<rparr>\<rparr> in
   (case call (boshinit_NewDeployInput u state infrastructureConfiguration (EnvID state) ''gcp'')
              (EvNewDeployInput state infrastructureConfiguration (EnvID state) ''gcp'') \<rho> of
      ((deployInput, Some err), \<rho>) \<Rightarrow> (Some err, \<rho>)
    | ((deployInput, None), \<rho>) \<Rightarrow>
   (case call (boshDeployer_Deploy u deployInput) (EvDeploy deployInput) \<rho> of
      ((deployOutput, Some err), \<rho>) \<Rightarrow> (Some err, \<rho>)
    | ((deployOutput, None), \<rho>) \<Rightarrow>
   (let state =
          (if BOSH_IsEmpty u (BOSH state)
           then state\<lparr>BOSH :=
                  \<lparr>DirectorName = diDirectorName deployInput,
                   DirectorAddress = directorAddress,
                   DirectorUsername = diDirectorUsername deployInput,
                   DirectorPassword = diDirectorPassword deployInput,
                   DirectorSSLCA = CA (DirectorSSLKeyPair deployOutput),
                   DirectorSSLCertificate = Certificate (DirectorSSLKeyPair deployOutput),
                   DirectorSSLPrivateKey = sslPrivateKey (DirectorSSLKeyPair deployOutput),
                   Credentials = doCredentials deployOutput,
                   State = '''', Manifest = ''''\<rparr>\<rparr>
           else state);
        state = state\<lparr>BOSH := (BOSH state)\<lparr>State := BOSHInitState deployOutput\<rparr>\<rparr>;
        state = state\<lparr>BOSH := (BOSH state)\<lparr>Manifest := BOSHInitManifest deployOutput\<rparr>\<rparr> in
   (case call (stateStore_Set u state) (EvSet state) \<rho> of
      (Some err, \<rho>) \<Rightarrow> (Some err, \<rho>)
    | (None, \<rho>) \<Rightarrow>
   Execute_cloudConfig u state networkName subnetworkName internalTag \<rho>)))))"

definition Execute_outputs ::
    "'w GCPUp \<Rightarrow> State \<Rightarrow> 'w run \<Rightarrow> error option \<times> 'w run" where
  "Execute_outputs u state \<rho> =
   (case call (terraformOutputer_Get u (TFState state) ''external_ip'')
              (EvGet (TFState state) ''external_ip'') \<rho> of
      ((externalIP, Some err), \<rho>) \<Rightarrow> (Some err, \<rho>)
    | ((externalIP, None), \<rho>) \<Rightarrow>
   (case call (terraformOutputer_Get u (TFState state) ''network_name'')
              (EvGet (TFState state) ''network_name'') \<rho> of
      ((networkName, Some err), \<rho>) \<Rightarrow> (Some err, \<rho>)
    | ((networkName, None), \<rho>) \<Rightarrow>
   (case call (terraformOutputer_Get u (TFState state) ''subnetwork_name'')
              (EvGet (TFState state) ''subnetwork_name'') \<rho> of
      ((subnetworkName, Some err), \<rho>) \<Rightarrow> (Some err, \<rho>)
    | ((subnetworkName, None), \<rho>) \<Rightarrow>
   (case call (terraformOutputer_Get u (TFState state) ''bosh_open_tag_name'')
              (EvGet (TFState state) ''bosh_open_tag_name'') \<rho> of
      ((boshTag, Some err), \<rho>) \<Rightarrow> (Some err, \<rho>)
    | ((boshTag, None), \<rho>) \<Rightarrow>
   (case call (terraformOutputer_Get u (TFState state) ''internal_tag_name'')
              (EvGet (TFState state) ''internal_tag_name'') \<rho> of
      ((internalTag, Some err), \<rho>) \<Rightarrow> (Some err, \<rho>)
    | ((internalTag, None), \<rho>) \<Rightarrow>
   (case call (terraformOutputer_Get u (TFState state) ''director_address'')
              (EvGet (TFState state) ''director_address'') \<rho> of
      ((directorAddress, Some err), \<rho>) \<Rightarrow> (Some err, \<rho>)
    | ((directorAddress, None), \<rho>) \<Rightarrow>
   Execute_deploy u state externalIP networkName subnetworkName boshTag internalTag directorAddress \<rho>))))))"

definition Execute_terraform ::
    "'w GCPUp \<Rightarrow> State \<Rightarrow> 'w run \<Rightarrow> error option \<times> 'w run" where
  "Execute_terraform u state \<rho> =
   (case call (tempDir u) EvTempDir \<rho> of
      ((tmpDir, Some err), \<rho>) \<Rightarrow> (Some err, \<rho>)
    | ((tmpDir, None), \<rho>) \<Rightarrow>
   (let serviceAccountKeyPath = filepath_Join u tmpDir ''credentials.json'' in
   (case call (writeFile u serviceAccountKeyPath (ServiceAccountKey (GCP state)))
              (EvWriteFile serviceAccountKeyPath (ServiceAccountKey (GCP state))) \<rho> of
      (Some err, \<rho>) \<Rightarrow> (Some err, \<rho>)
    | (None, \<rho>) \<Rightarrow>
   (case call (terraformApplier_Apply u serviceAccountKeyPath (EnvID state)
                 (ProjectID (GCP state)) (Zone (GCP state)) (Region (GCP state))
                 (terraformTemplate u) (TFState state))
              (EvApply serviceAccountKeyPath (EnvID state)
                 (ProjectID (GCP state)) (Zone (GCP state)) (Region (GCP state))
                 (terraformTemplate u) (TFState state)) \<rho> of
      ((tfState, Some err), \<rho>) \<Rightarrow> (Some err, \<rho>)
    | ((tfState, None), \<rho>) \<Rightarrow>
   (let state = state\<lparr>TFState := tfState\<rparr> in
   (case call (stateStore_Set u state) (EvSet state) \<rho> of
      (Some err, \<rho>) \<Rightarrow> (Some err, \<rho>)
    | (None, \<rho>) \<Rightarrow>
   Execute_outputs u state \<rho>))))))"

definition Execute_keyPair ::
    "'w GCPUp \<Rightarrow> State \<Rightarrow> 'w run \<Rightarrow> error option \<times> 'w run" where
  "Execute_keyPair u state \<rho> =
   (case (if KeyPair_IsEmpty u (KeyPair state)
          then (case call (keyPairUpdater_Update u (ProjectID (GCP state)))
                          (EvUpdate (ProjectID (GCP state))) \<rho> of
                  ((keyPair, Some err), \<rho>) \<Rightarrow> (Some err, state, \<rho>)
                | ((keyPair, None), \<rho>) \<Rightarrow>
                    (case call (stateStore_Set u (state\<lparr>KeyPair := keyPair\<rparr>))
                               (EvSet (state\<lparr>KeyPair := keyPair\<rparr>)) \<rho> of
                       (Some err, \<rho>) \<Rightarrow> (Some err, state\<lparr>KeyPair := keyPair\<rparr>, \<rho>)
                     | (None, \<rho>) \<Rightarrow> (None, state\<lparr>KeyPair := keyPair\<rparr>, \<rho>)))
          else (None, state, \<rho>)) of
      (Some err, state, \<rho>) \<Rightarrow> (Some err, \<rho>)
    | (None, state, \<rho>) \<Rightarrow>
   Execute_terraform u state \<rho>)"

definition Execute_validate ::
    "'w GCPUp \<Rightarrow> State \<Rightarrow> 'w run \<Rightarrow> error option \<times> 'w run" where
  "Execute_validate u state \<rho> =
   (case validateState state of
      Some err \<Rightarrow> (Some err, \<rho>)
    | None \<Rightarrow>
   (case call (stateStore_Set u state) (EvSet state) \<rho> of
      (Some err, \<rho>) \<Rightarrow> (Some err, \<rho>)
    | (None, \<rho>) \<Rightarrow>
   (case call (gcpProvider_SetConfig u (ServiceAccountKey (GCP state)))
              (EvSetConfig (ServiceAccountKey (GCP state))) \<rho> of
      (Some err, \<rho>) \<Rightarrow> (Some err, \<rho>)
    | (None, \<rho>) \<Rightarrow>
   Execute_keyPair u state \<rho>)))"

section \<open>\<open>commands/state_query.go\<close>\<close>

definition EnvIDPropertyName :: string where
  "EnvIDPropertyName = ''environment id''"

definition JumpboxAddressPropertyName :: string where
  "JumpboxAddressPropertyName = ''jumpbox address''"

definition DirectorUsernamePropertyName :: string where
  "DirectorUsernamePropertyName = ''director username''"

definition DirectorPasswordPropertyName :: string where
  "DirectorPasswordPropertyName = ''director password''"

definition DirectorAddressPropertyName :: string where
  "DirectorAddressPropertyName = ''director address''"

definition DirectorCACertPropertyName :: string where
  "DirectorCACertPropertyName = ''director ca cert''"

text \<open>A value of Go's \<open>interface{}\<close>, as far as the type assertion \<open>.(string)\<close> tells
  values apart: a string, or anything else.\<close>

datatype iface = IString string | IOther

text \<open>The stack that \<open>infrastructureManager.Describe\<close> returns; only its outputs are read.\<close>

record cfStack =
  Outputs :: "string \<rightharpoonup> string"

text \<open>
  The collaborators of a \<open>StateQuery\<close>, each by what it returns when called.  None of the
  functions below calls a collaborator twice, so the world need not be threaded here.
\<close>

record StateQuery =
  stateValidator_Validate :: "error option"
  terraformManager_GetOutputs :: "State \<Rightarrow> (string \<rightharpoonup> iface) \<times> error option"
  infrastructureManager_Describe :: "string \<Rightarrow> cfStack \<times> error option"
  propertyName :: string

text \<open>A Go function returns, or panics.\<close>

datatype 'a outcome = Panic | Return 'a

definition CheckFastFails :: "StateQuery \<Rightarrow> string list \<Rightarrow> State \<Rightarrow> error option" where
  "CheckFastFails s subcommandFlags state =
     (case stateValidator_Validate s of
        Some err \<Rightarrow> Some err
      | None \<Rightarrow>
          if NoDirector state \<and> propertyName s \<noteq> DirectorAddressPropertyName
               \<and> propertyName s \<noteq> EnvIDPropertyName
          then Some ''Error BBL does not manage this director.''
          else None)"

text \<open>
  \<open>getEIP\<close>.  A key that a Go map does not hold reads as the zero value: the empty
  string in \<open>stack.Outputs\<close>, the \<open>nil\<close> interface in \<open>terraformOutputs\<close>, where the
  type assertion to \<open>string\<close> then panics, as it does on a value that is no string.
\<close>

definition getEIP :: "StateQuery \<Rightarrow> State \<Rightarrow> (string \<times> error option) outcome" where
  "getEIP s state =
     (if IAAS state = ''aws'' then
        (case infrastructureManager_Describe s (Name (Stack state)) of
           (stack, Some err) \<Rightarrow> Return ('''', Some err)
         | (stack, None) \<Rightarrow>
             Return (case Outputs stack ''BOSHEIP'' of None \<Rightarrow> '''' | Some v \<Rightarrow> v, None))
      else if IAAS state = ''gcp'' then
        (case terraformManager_GetOutputs s state of
           (terraformOutputs, Some err) \<Rightarrow> Return ('''', Some err)
         | (terraformOutputs, None) \<Rightarrow>
             (case terraformOutputs ''external_ip'' of
                Some (IString v) \<Rightarrow> Return (v, None)
              | _ \<Rightarrow> Panic))
      else Return ('''', Some ''Could not find external IP for given IAAS''))"

text \<open>The \<open>switch\<close> of \<open>StateQuery.Execute\<close> that resolves \<open>propertyValue\<close>; a property
  name that matches no case leaves it empty.\<close>

definition propertyValue :: "StateQuery \<Rightarrow> State \<Rightarrow> (string \<times> error option) outcome" where
  "propertyValue s state =
     (if propertyName s = JumpboxAddressPropertyName then
        Return (if Enabled (Jumpbox state) then URL (Jumpbox state) else '''', None)
      else if propertyName s = DirectorAddressPropertyName then
        (if \<not> NoDirector state then Return (DirectorAddress (BOSH state), None)
         else
           (case getEIP s state of
              Panic \<Rightarrow> Panic
            | Return (externalIP, Some err) \<Rightarrow> Return ('''', Some err)
            | Return (externalIP, None) \<Rightarrow>
                Return (''https://'' @ externalIP @ '':25555'', None)))
      else if propertyName s = DirectorUsernamePropertyName then
        Return (DirectorUsername (BOSH state), None)
      else if propertyName s = DirectorPasswordPropertyName then
        Return (DirectorPassword (BOSH state), None)
      else if propertyName s = DirectorCACertPropertyName then
        Return (DirectorSSLCA (BOSH state), None)
      else if propertyName s = EnvIDPropertyName then
        Return (EnvID state, None)
      else Return ('''', None))"

text \<open>\<open>StateQuery.Execute\<close> returns its error and the lines \<open>logger.Println\<close> printed.\<close>

definition StateQuery_Execute ::
    "StateQuery \<Rightarrow> string list \<Rightarrow> State \<Rightarrow> (error option \<times> string list) outcome" where
  "StateQuery_Execute s subcommandFlags state =
     (case propertyValue s state of
        Panic \<Rightarrow> Panic
      | Return (v, Some err) \<Rightarrow> Return (Some err, [])
      | Return (v, None) \<Rightarrow>
          if v = ''''
          then Return (Some (''Could not retrieve '' @ propertyName s
                 @ '', please make sure you are targeting the proper state dir.''), [])
          else Return (None, [v]))"

section \<open>What the claims speak of\<close>

subsection \<open>Credentials\<close>

text \<open>The credential fields \<open>validateState\<close> requires, by the names its messages use,
  in the order it checks them; and those of them a state lacks.\<close>

definition required :: "(string \<times> (GCP \<Rightarrow> string)) list" where
  "required =
     [(''service account key'', ServiceAccountKey), (''project ID'', ProjectID),
      (''region'', Region), (''zone'', Zone)]"

definition missing :: "State \<Rightarrow> string list" where
  "missing state = map fst (filter (\<lambda>(n, field). field (GCP state) = '''') required)"

text \<open>An error message mentions a field when the field's name occurs in it.\<close>

fun mentions :: "string \<Rightarrow> string \<Rightarrow> bool" where
  "mentions [] n = (n = [])"
| "mentions (c # cs) n = (prefix n (c # cs) \<or> mentions cs n)"

subsection \<open>Reading a trace\<close>

text \<open>The states handed to \<open>stateStore.Set\<close>, in order: what was persisted.\<close>

fun persisted :: "event list \<Rightarrow> State list" where
  "persisted [] = []"
| "persisted (EvSet s r # es) = s # persisted es"
| "persisted (e # es) = persisted es"

text \<open>The first state persisted, if any.\<close>

fun first_persisted :: "event list \<Rightarrow> State option" where
  "first_persisted [] = None"
| "first_persisted (EvSet s r # es) = Some s"
| "first_persisted (e # es) = first_persisted es"

text \<open>The calls that change what the cloud holds, and the persists, in order.\<close>

datatype milestone = MSet | MUpdate | MApply | MDeploy

fun milestones :: "event list \<Rightarrow> milestone list" where
  "milestones [] = []"
| "milestones (EvSet s r # es) = MSet # milestones es"
| "milestones (EvUpdate p r # es) = MUpdate # milestones es"
| "milestones (EvApply a b c d e f g r # es) = MApply # milestones es"
| "milestones (EvDeploy i r # es) = MDeploy # milestones es"
| "milestones (e # es) = milestones es"

text \<open>The next call is \<open>stateStore.Set\<close>, of a state that satisfies \<open>P\<close>.\<close>

fun persisted_next :: "(State \<Rightarrow> bool) \<Rightarrow> event list \<Rightarrow> bool" where
  "persisted_next P (EvSet s r # es) = P s"
| "persisted_next P es = False"

text \<open>
  A trace is checkpointed when every keypair update, terraform apply and director deploy
  that returned without error is followed at once by a persist of a state that holds
  what the call returned.
\<close>

fun checkpointed :: "event list \<Rightarrow> bool" where
  "checkpointed [] = True"
| "checkpointed (EvUpdate p (keyPair, None) # es) =
     (persisted_next (\<lambda>s. KeyPair s = keyPair) es \<and> checkpointed es)"
| "checkpointed (EvApply a b c d e f g (tfState, None) # es) =
     (persisted_next (\<lambda>s. TFState s = tfState) es \<and> checkpointed es)"
| "checkpointed (EvDeploy i (deployOutput, None) # es) =
     (persisted_next (\<lambda>s. State (BOSH s) = BOSHInitState deployOutput
                          \<and> Manifest (BOSH s) = BOSHInitManifest deployOutput) es
      \<and> checkpointed es)"
| "checkpointed (e # es) = checkpointed es"

text \<open>Two states agree when they differ at most in who the director is: its name,
  address, user, password, certificates and credentials.\<close>

definition agrees :: "State \<Rightarrow> State \<Rightarrow> bool" where
  "agrees s cur \<longleftrightarrow>
     IAAS s = IAAS cur \<and> GCP s = GCP cur \<and> KeyPair s = KeyPair cur \<and> EnvID s = EnvID cur
     \<and> TFState s = TFState cur \<and> NoDirector s = NoDirector cur \<and> Jumpbox s = Jumpbox cur
     \<and> Stack s = Stack cur \<and> State (BOSH s) = State (BOSH cur)
     \<and> Manifest (BOSH s) = Manifest (BOSH cur)"

text \<open>
  \<open>reflects cur es\<close>: every state persisted in \<open>es\<close> agrees with \<open>cur\<close> as updated by
  the results of exactly the steps that completed before the persist.
\<close>

fun reflects :: "State \<Rightarrow> event list \<Rightarrow> bool" where
  "reflects cur [] = True"
| "reflects cur (EvSet s r # es) = (agrees s cur \<and> reflects cur es)"
| "reflects cur (EvUpdate p (keyPair, None) # es) = reflects (cur\<lparr>KeyPair := keyPair\<rparr>) es"
| "reflects cur (EvApply a b c d e f g (tfState, None) # es) =
     reflects (cur\<lparr>TFState := tfState\<rparr>) es"
| "reflects cur (EvDeploy i (deployOutput, None) # es) =
     reflects (cur\<lparr>BOSH := (BOSH cur)\<lparr>State := BOSHInitState deployOutput,
                                        Manifest := BOSHInitManifest deployOutput\<rparr>\<rparr>) es"
| "reflects cur (e # es) = reflects cur es"

text \<open>The state with the IAAS and the credentials of the configuration set in it: the
  state itself when no configuration is given.\<close>

definition credentialed :: "GCPUpConfig \<Rightarrow> State \<Rightarrow> State \<Rightarrow> bool" where
  "credentialed upConfig state s \<longleftrightarrow>
     validateState s = None \<and>
     (if empty_config upConfig then s = state
      else s = state\<lparr>IAAS := ''gcp'',
                      GCP := \<lparr>ServiceAccountKey = ServiceAccountKey (GCP s),
                              ProjectID = cfgProjectID upConfig, Zone = cfgZone upConfig,
                              Region = cfgRegion upConfig\<rparr>\<rparr>)"

text \<open>The order of the milestones of a full run.\<close>

definition pipeline :: "bool \<Rightarrow> milestone list" where
  "pipeline fresh_keypair =
     MSet # (if fresh_keypair then [MUpdate, MSet] else []) @ [MApply, MSet, MDeploy, MSet]"

fun is_Update :: "event \<Rightarrow> bool" where
  "is_Update (EvUpdate p r) = True"
| "is_Update e = False"

fun is_Apply :: "event \<Rightarrow> bool" where
  "is_Apply (EvApply a b c d e f g r) = True"
| "is_Apply e = False"

text \<open>The run got as far as the keypair step: the call before it,
  \<open>gcpProvider.SetConfig\<close>, returned without error.\<close>

fun SetConfig_ok :: "event \<Rightarrow> bool" where
  "SetConfig_ok (EvSetConfig k None) = True"
| "SetConfig_ok e = False"

text \<open>
  \<open>keypair_stored k es\<close>: every state persisted in \<open>es\<close> holds the keypair \<open>k\<close>, until
  the generator returns a new one, which is persisted at once and held from then on.
\<close>

fun keypair_stored :: "KeyPair \<Rightarrow> event list \<Rightarrow> bool" where
  "keypair_stored k [] = True"
| "keypair_stored k (EvSet s r # es) = (KeyPair s = k \<and> keypair_stored k es)"
| "keypair_stored k (EvUpdate p (keyPair, None) # es) =
     (persisted_next (\<lambda>s. KeyPair s = keyPair) es \<and> keypair_stored keyPair es)"
| "keypair_stored k (e # es) = keypair_stored k es"

text \<open>Who the director is: the fields of \<open>BOSH\<close> other than \<open>State\<close> and \<open>Manifest\<close>.\<close>

definition identity ::
    "BOSH \<Rightarrow> string \<times> string \<times> string \<times> string \<times> string \<times> string \<times> string \<times> (string \<times> string) list"
  where
  "identity b =
     (DirectorName b, DirectorAddress b, DirectorUsername b, DirectorPassword b,
      DirectorSSLCA b, DirectorSSLCertificate b, DirectorSSLPrivateKey b, Credentials b)"

text \<open>
  \<open>bosh_kept b es\<close>: every state persisted in \<open>es\<close> holds the director document \<open>b\<close>,
  with \<open>State\<close> and \<open>Manifest\<close> replaced by those of the deploy output once a deploy
  has returned one, and nothing else replaced.
\<close>

fun bosh_kept :: "BOSH \<Rightarrow> event list \<Rightarrow> bool" where
  "bosh_kept b [] = True"
| "bosh_kept b (EvSet s r # es) = (BOSH s = b \<and> bosh_kept b es)"
| "bosh_kept b (EvDeploy i (deployOutput, None) # es) =
     bosh_kept (b\<lparr>State := BOSHInitState deployOutput,
                   Manifest := BOSHInitManifest deployOutput\<rparr>) es"
| "bosh_kept b (e # es) = bosh_kept b es"

text \<open>The cloud config generator is called with the zones \<open>getAZs\<close> gives for \<open>region\<close>.\<close>

fun generates_for :: "string \<Rightarrow> event \<Rightarrow> bool" where
  "generates_for region (EvGenerate input r) = (AZs input = getAZs region)"
| "generates_for region e = True"

text \<open>The region a run works with: that of the configuration, when one is given.\<close>

definition region_of :: "GCPUpConfig \<Rightarrow> State \<Rightarrow> string" where
  "region_of upConfig state =
     (if empty_config upConfig then Region (GCP state) else cfgRegion upConfig)"

text \<open>
  When the applier returns an error: the error is what the run returns, the failed call
  is the last of the run, and every state persisted holds the terraform state \<open>t\<close>.
\<close>

definition apply_error_final :: "string \<Rightarrow> error option \<Rightarrow> event list \<Rightarrow> bool" where
  "apply_error_final t r es \<longleftrightarrow>
     (\<forall>a1 a2 a3 a4 a5 a6 a7 blob err.
        EvApply a1 a2 a3 a4 a5 a6 a7 (blob, Some err) \<in> set es \<longrightarrow>
          r = Some err \<and> last es = EvApply a1 a2 a3 a4 a5 a6 a7 (blob, Some err)
          \<and> list_all (\<lambda>s. TFState s = t) (persisted es))"

subsection \<open>Sample collaborators, configurations and states\<close>

text \<open>
  Collaborators that all succeed, in a world that counts the calls made.  A keypair is
  taken to be empty when a key is missing, a director document when it is the zero value.
\<close>

definition zeroBOSH :: BOSH where
  "zeroBOSH =
     \<lparr>DirectorName = '''', DirectorAddress = '''', DirectorUsername = '''',
      DirectorPassword = '''', DirectorSSLCA = '''', DirectorSSLCertificate = '''',
      DirectorSSLPrivateKey = '''', Credentials = [], State = '''', Manifest = ''''\<rparr>"

definition happy :: "nat GCPUp" where
  "happy =
     \<lparr>stateStore_Set = (\<lambda>s w. (None, Suc w)),
      keyPairUpdater_Update =
        (\<lambda>p w. ((\<lparr>PublicKey = ''ssh-rsa AAAA'', PrivateKey = ''RSA PRIVATE KEY''\<rparr>, None), Suc w)),
      gcpProvider_SetConfig = (\<lambda>k w. (None, Suc w)),
      terraformApplier_Apply = (\<lambda>a b c d e f g w. ((''tfstate-new'', None), Suc w)),
      boshDeployer_Deploy =
        (\<lambda>i w. ((\<lparr>DirectorSSLKeyPair =
                       \<lparr>CA = ''ca-new'', Certificate = ''cert-new'', sslPrivateKey = ''key-new''\<rparr>,
                     doCredentials = [(''mbus'', ''pw-new'')],
                     BOSHInitState = ''bosh-state-new'',
                     BOSHInitManifest = ''manifest-new''\<rparr>, None), Suc w)),
      boshinit_NewDeployInput =
        (\<lambda>s c e i w. ((\<lparr>diDirectorName = ''bosh-'' @ e, diDirectorUsername = ''user-new'',
                         diDirectorPassword = ''password-new''\<rparr>, None), Suc w)),
      logger_Step = (\<lambda>m w. ((), Suc w)),
      boshClient_UpdateCloudConfig = (\<lambda>c y w. (None, Suc w)),
      cloudConfigGenerator_Generate = (\<lambda>i w. ((''cloud-config'', None), Suc w)),
      terraformOutputer_Get = (\<lambda>t n w. ((''the-'' @ n, None), Suc w)),
      writeFile = (\<lambda>p c w. (None, Suc w)),
      tempDir = (\<lambda>w. ((''/tmp/bbl'', None), Suc w)),
      marshal = (\<lambda>c w. ((''yaml: '' @ c, None), Suc w)),
      ioutil_ReadFile = (\<lambda>p w. ((''{}'', None), Suc w)),
      json_Unmarshal = (\<lambda>b. None),
      filepath_Join = (\<lambda>d f. d @ ''/'' @ f),
      terraformTemplate = ''template'',
      KeyPair_IsEmpty = (\<lambda>k. PublicKey k = '''' \<or> PrivateKey k = ''''),
      BOSH_IsEmpty = (\<lambda>b. b = zeroBOSH)\<rparr>"

text \<open>The same, but the applier fails and reports the state it got to.\<close>

definition apply_fails :: "nat GCPUp" where
  "apply_fails =
     happy\<lparr>terraformApplier_Apply :=
       (\<lambda>a b c d e f g w. ((''tfstate-partial'', Some ''terraform apply failed''), Suc w))\<rparr>"

definition given :: GCPUpConfig where
  "given =
     \<lparr>ServiceAccountKeyPath = ''/keys/sak.json'', cfgProjectID = ''acme'',
      cfgZone = ''us-east1-b'', cfgRegion = ''us-east1''\<rparr>"

text \<open>\<open>europe-west2\<close> is a region the table of \<open>getAZs\<close> does not hold.\<close>

definition given_london :: GCPUpConfig where
  "given_london =
     \<lparr>ServiceAccountKeyPath = ''/keys/sak.json'', cfgProjectID = ''acme'',
      cfgZone = ''europe-west2-a'', cfgRegion = ''europe-west2''\<rparr>"

definition no_config :: GCPUpConfig where
  "no_config =
     \<lparr>ServiceAccountKeyPath = '''', cfgProjectID = '''', cfgZone = '''', cfgRegion = ''''\<rparr>"

text \<open>The state of a directory that \<open>up\<close> has not run in yet, and that of an environment
  it has brought up before.\<close>

definition fresh :: State where
  "fresh =
     \<lparr>IAAS = '''', GCP = emptyGCP, KeyPair = \<lparr>PublicKey = '''', PrivateKey = ''''\<rparr>,
      EnvID = ''bbl-env-lake'', TFState = '''', BOSH = zeroBOSH, NoDirector = False,
      Jumpbox = \<lparr>Enabled = False, URL = ''''\<rparr>, Stack = \<lparr>Name = ''''\<rparr>\<rparr>"

definition deployed :: State where
  "deployed =
     \<lparr>IAAS = ''gcp'',
      GCP = \<lparr>ServiceAccountKey = ''{}'', ProjectID = ''acme'', Zone = ''us-east1-b'',
             Region = ''us-east1''\<rparr>,
      KeyPair = \<lparr>PublicKey = ''ssh-rsa OLD'', PrivateKey = ''OLD PRIVATE KEY''\<rparr>,
      EnvID = ''bbl-env-lake'', TFState = ''tfstate-old'',
      BOSH = \<lparr>DirectorName = ''bosh-bbl-env-lake'', DirectorAddress = ''https://10.0.0.6:25555'',
              DirectorUsername = ''user-old'', DirectorPassword = ''password-old'',
              DirectorSSLCA = ''ca-old'', DirectorSSLCertificate = ''cert-old'',
              DirectorSSLPrivateKey = ''key-old'', Credentials = [(''mbus'', ''pw-old'')],
              State = ''bosh-state-old'', Manifest = ''manifest-old''\<rparr>,
      NoDirector = False, Jumpbox = \<lparr>Enabled = False, URL = ''''\<rparr>, Stack = \<lparr>Name = ''''\<rparr>\<rparr>"

text \<open>A query for the property \<open>name\<close> whose collaborators succeed, or whose state
  validator fails.\<close>

definition query :: "string \<Rightarrow> StateQuery" where
  "query name =
     \<lparr>stateValidator_Validate = None,
      terraformManager_GetOutputs = (\<lambda>s. ([''external_ip'' \<mapsto> IString ''35.1.2.3''], None)),
      infrastructureManager_Describe = (\<lambda>n. (\<lparr>Outputs = [''BOSHEIP'' \<mapsto> ''52.0.0.9'']\<rparr>, None)),
      propertyName = name\<rparr>"

definition query_invalid :: "string \<Rightarrow> StateQuery" where
  "query_invalid name = (query name)\<lparr>stateValidator_Validate := Some ''bbl-state.json not found''\<rparr>"

text \<open>States that were brought up without a director, on GCP, on AWS and on Azure.\<close>

definition no_director :: "string \<Rightarrow> State" where
  "no_director iaas = deployed\<lparr>IAAS := iaas, BOSH := zeroBOSH, NoDirector := True\<rparr>"

section \<open>The stages of a run\<close>

lemma Execute_staged:
  "Execute u upConfig state \<rho> =
   (case (if \<not> empty_config upConfig
          then (case parseUpConfig u upConfig \<rho> of
                  ((gcpDetails, Some err), \<rho>) \<Rightarrow> (Some err, state, \<rho>)
                | ((gcpDetails, None), \<rho>) \<Rightarrow>
                    (None, state\<lparr>IAAS := ''gcp'', GCP := gcpDetails\<rparr>, \<rho>))
          else (None, state, \<rho>)) of
      (Some err, state, \<rho>) \<Rightarrow> (Some err, \<rho>)
    | (None, state, \<rho>) \<Rightarrow>
   Execute_validate u state \<rho>)"
  unfolding Execute_def Execute_validate_def Execute_keyPair_def Execute_terraform_def Execute_outputs_def
    Execute_deploy_def Execute_cloudConfig_def
  by (rule refl)

lemma world_start [simp]: "world (start w) = w"
  by (simp add: start_def)

lemma trace_start [simp]: "trace (start w) = []"
  by (simp add: start_def)

lemma events_Pair [simp]: "events (err, \<rho>) = trace \<rho>"
  by (simp add: events_def)

text \<open>A stage appends to the trace it is given, and does nothing else with it.\<close>

lemma frame_cloudConfig:
  "events (Execute_cloudConfig u state net sub itag \<lparr>world = w, trace = tr\<rparr>) =
     tr @ events (Execute_cloudConfig u state net sub itag (start w))"
  "fst (Execute_cloudConfig u state net sub itag \<lparr>world = w, trace = tr\<rparr>) =
     fst (Execute_cloudConfig u state net sub itag (start w))"
  by (simp_all add: Execute_cloudConfig_def call_def Let_def split: prod.split option.split)

lemma frame_deploy:
  "events (Execute_deploy u state ip net sub tag itag addr \<lparr>world = w, trace = tr\<rparr>) =
     tr @ events (Execute_deploy u state ip net sub tag itag addr (start w))"
  "fst (Execute_deploy u state ip net sub tag itag addr \<lparr>world = w, trace = tr\<rparr>) =
     fst (Execute_deploy u state ip net sub tag itag addr (start w))"
  by (simp_all add: Execute_deploy_def call_def Let_def frame_cloudConfig
        split: prod.split option.split)

lemma frame_outputs:
  "events (Execute_outputs u state \<lparr>world = w, trace = tr\<rparr>) =
     tr @ events (Execute_outputs u state (start w))"
  "fst (Execute_outputs u state \<lparr>world = w, trace = tr\<rparr>) =
     fst (Execute_outputs u state (start w))"
  by (simp_all add: Execute_outputs_def call_def Let_def frame_deploy
        split: prod.split option.split)

lemma frame_terraform:
  "events (Execute_terraform u state \<lparr>world = w, trace = tr\<rparr>) =
     tr @ events (Execute_terraform u state (start w))"
  "fst (Execute_terraform u state \<lparr>world = w, trace = tr\<rparr>) =
     fst (Execute_terraform u state (start w))"
  by (simp_all add: Execute_terraform_def call_def Let_def frame_outputs
        split: prod.split option.split)

lemma frame_keyPair:
  "events (Execute_keyPair u state \<lparr>world = w, trace = tr\<rparr>) =
     tr @ events (Execute_keyPair u state (start w))"
  "fst (Execute_keyPair u state \<lparr>world = w, trace = tr\<rparr>) =
     fst (Execute_keyPair u state (start w))"
  by (simp_all add: Execute_keyPair_def call_def Let_def frame_terraform
        split: prod.split option.split)

lemma frame_validate:
  "events (Execute_validate u state \<lparr>world = w, trace = tr\<rparr>) =
     tr @ events (Execute_validate u state (start w))"
  "fst (Execute_validate u state \<lparr>world = w, trace = tr\<rparr>) =
     fst (Execute_validate u state (start w))"
  by (simp_all add: Execute_validate_def call_def Let_def frame_keyPair
        split: prod.split option.split)

lemmas frames = frame_cloudConfig frame_deploy frame_outputs frame_terraform frame_keyPair
  frame_validate

text \<open>A run never writes another \<open>EnvID\<close>.\<close>

lemma envid_cloudConfig:
  "EnvID state = x \<Longrightarrow>
   list_all (\<lambda>s. EnvID s = x) (persisted (events (Execute_cloudConfig u state net sub itag (start w))))"
  by (simp add: Execute_cloudConfig_def call_def Let_def frames
        split: prod.split option.split)

lemma envid_deploy:
  "EnvID state = x \<Longrightarrow>
   list_all (\<lambda>s. EnvID s = x) (persisted (events (Execute_deploy u state ip net sub tag itag addr (start w))))"
  by (simp add: Execute_deploy_def call_def Let_def frames envid_cloudConfig
        split: prod.split option.split)

lemma envid_outputs:
  "EnvID state = x \<Longrightarrow>
   list_all (\<lambda>s. EnvID s = x) (persisted (events (Execute_outputs u state (start w))))"
  by (simp add: Execute_outputs_def call_def Let_def frames envid_deploy
        split: prod.split option.split)

lemma envid_terraform:
  "EnvID state = x \<Longrightarrow>
   list_all (\<lambda>s. EnvID s = x) (persisted (events (Execute_terraform u state (start w))))"
  by (simp add: Execute_terraform_def call_def Let_def frames envid_outputs
        split: prod.split option.split)

lemma envid_keyPair:
  "EnvID state = x \<Longrightarrow>
   list_all (\<lambda>s. EnvID s = x) (persisted (events (Execute_keyPair u state (start w))))"
  by (simp add: Execute_keyPair_def call_def Let_def frames envid_terraform
        split: prod.split option.split)

lemma envid_validate:
  "EnvID state = x \<Longrightarrow>
   list_all (\<lambda>s. EnvID s = x) (persisted (events (Execute_validate u state (start w))))"
  by (simp add: Execute_validate_def call_def Let_def frames envid_keyPair
        split: prod.split option.split)

text \<open>Every stage is checkpointed.\<close>

lemma checkpointed_cloudConfig:
  "checkpointed (events (Execute_cloudConfig u state net sub itag (start w)))"
  by (simp add: Execute_cloudConfig_def call_def Let_def frames
        split: prod.split option.split)

lemma checkpointed_deploy:
  "checkpointed (events (Execute_deploy u state ip net sub tag itag addr (start w)))"
  by (simp add: Execute_deploy_def call_def Let_def frames checkpointed_cloudConfig
        split: prod.split option.split)

lemma checkpointed_outputs:
  "checkpointed (events (Execute_outputs u state (start w)))"
  by (simp add: Execute_outputs_def call_def Let_def frames checkpointed_deploy
        split: prod.split option.split)

lemma checkpointed_terraform:
  "checkpointed (events (Execute_terraform u state (start w)))"
  by (simp add: Execute_terraform_def call_def Let_def frames checkpointed_outputs
        split: prod.split option.split)

lemma checkpointed_keyPair:
  "checkpointed (events (Execute_keyPair u state (start w)))"
  by (simp add: Execute_keyPair_def call_def Let_def frames checkpointed_terraform
        split: prod.split option.split)

lemma checkpointed_validate:
  "checkpointed (events (Execute_validate u state (start w)))"
  by (simp add: Execute_validate_def call_def Let_def frames checkpointed_keyPair
        split: prod.split option.split)

text \<open>The milestones of every stage come in the order of the pipeline.\<close>

lemma order_cloudConfig:
  "milestones (events (Execute_cloudConfig u state net sub itag (start w))) = []"
  by (simp add: Execute_cloudConfig_def call_def Let_def frames
        split: prod.split option.split)

lemma order_deploy:
  "prefix (milestones (events (Execute_deploy u state ip net sub tag itag addr (start w)))) [MDeploy, MSet]"
  by (simp add: Execute_deploy_def call_def Let_def frames order_cloudConfig
        split: prod.split option.split)

lemma order_outputs:
  "prefix (milestones (events (Execute_outputs u state (start w)))) [MDeploy, MSet]"
  by (simp add: Execute_outputs_def call_def Let_def frames order_deploy
        split: prod.split option.split)

lemma order_terraform:
  "prefix (milestones (events (Execute_terraform u state (start w)))) [MApply, MSet, MDeploy, MSet]"
  by (simp add: Execute_terraform_def call_def Let_def frames order_outputs
        split: prod.split option.split)

text \<open>What a stage persists reflects the steps completed before.\<close>

lemma reflects_cloudConfig:
  "agrees state cur \<Longrightarrow>
   reflects cur (events (Execute_cloudConfig u state net sub itag (start w)))"
  by (simp add: Execute_cloudConfig_def call_def Let_def frames agrees_def
        split: prod.split option.split)

lemma reflects_deploy:
  "agrees state cur \<Longrightarrow>
   reflects cur (events (Execute_deploy u state ip net sub tag itag addr (start w)))"
  by (simp add: Execute_deploy_def call_def Let_def frames agrees_def reflects_cloudConfig
        split: prod.split option.split)

lemma reflects_outputs:
  "agrees state cur \<Longrightarrow>
   reflects cur (events (Execute_outputs u state (start w)))"
  by (simp add: Execute_outputs_def call_def Let_def frames agrees_def reflects_deploy
        split: prod.split option.split)

lemma reflects_terraform:
  "agrees state cur \<Longrightarrow>
   reflects cur (events (Execute_terraform u state (start w)))"
  by (simp add: Execute_terraform_def call_def Let_def frames agrees_def reflects_outputs
        split: prod.split option.split)

lemma reflects_keyPair:
  "agrees state cur \<Longrightarrow>
   reflects cur (events (Execute_keyPair u state (start w)))"
  by (simp add: Execute_keyPair_def call_def Let_def frames agrees_def reflects_terraform
        split: prod.split option.split)

lemma reflects_validate:
  "agrees state cur \<Longrightarrow>
   reflects cur (events (Execute_validate u state (start w)))"
  by (simp add: Execute_validate_def call_def Let_def frames agrees_def reflects_keyPair
        split: prod.split option.split)

text \<open>After the terraform stage the applier is not called again.\<close>

lemma no_Apply_cloudConfig:
  "EvApply a1 a2 a3 a4 a5 a6 a7 r \<notin> set (events (Execute_cloudConfig u state net sub itag (start w)))"
  by (simp add: Execute_cloudConfig_def call_def Let_def frames
        split: prod.split option.split)

lemma no_Apply_deploy:
  "EvApply a1 a2 a3 a4 a5 a6 a7 r \<notin> set (events (Execute_deploy u state ip net sub tag itag addr (start w)))"
  by (simp add: Execute_deploy_def call_def Let_def frames no_Apply_cloudConfig
        split: prod.split option.split)

lemma no_Apply_outputs:
  "EvApply a1 a2 a3 a4 a5 a6 a7 r \<notin> set (events (Execute_outputs u state (start w)))"
  by (simp add: Execute_outputs_def call_def Let_def frames no_Apply_deploy
        split: prod.split option.split)

text \<open>After the keypair stage the generator is not called again.\<close>

lemma no_Update_cloudConfig:
  "list_all (\<lambda>e. \<not> is_Update e) (events (Execute_cloudConfig u state net sub itag (start w)))"
  by (simp add: Execute_cloudConfig_def call_def Let_def frames
        split: prod.split option.split)

lemma no_Update_deploy:
  "list_all (\<lambda>e. \<not> is_Update e) (events (Execute_deploy u state ip net sub tag itag addr (start w)))"
  by (simp add: Execute_deploy_def call_def Let_def frames no_Update_cloudConfig
        split: prod.split option.split)

lemma no_Update_outputs:
  "list_all (\<lambda>e. \<not> is_Update e) (events (Execute_outputs u state (start w)))"
  by (simp add: Execute_outputs_def call_def Let_def frames no_Update_deploy
        split: prod.split option.split)

lemma no_Update_terraform:
  "list_all (\<lambda>e. \<not> is_Update e) (events (Execute_terraform u state (start w)))"
  by (simp add: Execute_terraform_def call_def Let_def frames no_Update_outputs
        split: prod.split option.split)

text \<open>The keypair a stage starts with, or generates, is the one it persists.\<close>

lemma keypair_stored_cloudConfig:
  "KeyPair state = k \<Longrightarrow>
   keypair_stored k (events (Execute_cloudConfig u state net sub itag (start w)))"
  by (simp add: Execute_cloudConfig_def call_def Let_def frames
        split: prod.split option.split)

lemma keypair_stored_deploy:
  "KeyPair state = k \<Longrightarrow>
   keypair_stored k (events (Execute_deploy u state ip net sub tag itag addr (start w)))"
  by (simp add: Execute_deploy_def call_def Let_def frames keypair_stored_cloudConfig
        split: prod.split option.split)

lemma keypair_stored_outputs:
  "KeyPair state = k \<Longrightarrow>
   keypair_stored k (events (Execute_outputs u state (start w)))"
  by (simp add: Execute_outputs_def call_def Let_def frames keypair_stored_deploy
        split: prod.split option.split)

lemma keypair_stored_terraform:
  "KeyPair state = k \<Longrightarrow>
   keypair_stored k (events (Execute_terraform u state (start w)))"
  by (simp add: Execute_terraform_def call_def Let_def frames keypair_stored_outputs
        split: prod.split option.split)

lemma keypair_stored_keyPair:
  "KeyPair state = k \<Longrightarrow>
   keypair_stored k (events (Execute_keyPair u state (start w)))"
  by (simp add: Execute_keyPair_def call_def Let_def frames keypair_stored_terraform
        split: prod.split option.split)

lemma keypair_stored_validate:
  "KeyPair state = k \<Longrightarrow>
   keypair_stored k (events (Execute_validate u state (start w)))"
  by (simp add: Execute_validate_def call_def Let_def frames keypair_stored_keyPair
        split: prod.split option.split)

text \<open>The generator gets the zones of the state's region.\<close>

lemma generates_cloudConfig:
  "Region (GCP state) = r \<Longrightarrow>
   list_all (generates_for r) (events (Execute_cloudConfig u state net sub itag (start w)))"
  by (simp add: Execute_cloudConfig_def call_def Let_def frames
        split: prod.split option.split)

lemma generates_deploy:
  "Region (GCP state) = r \<Longrightarrow>
   list_all (generates_for r) (events (Execute_deploy u state ip net sub tag itag addr (start w)))"
  by (simp add: Execute_deploy_def call_def Let_def frames generates_cloudConfig
        split: prod.split option.split)

lemma generates_outputs:
  "Region (GCP state) = r \<Longrightarrow>
   list_all (generates_for r) (events (Execute_outputs u state (start w)))"
  by (simp add: Execute_outputs_def call_def Let_def frames generates_deploy
        split: prod.split option.split)

lemma generates_terraform:
  "Region (GCP state) = r \<Longrightarrow>
   list_all (generates_for r) (events (Execute_terraform u state (start w)))"
  by (simp add: Execute_terraform_def call_def Let_def frames generates_outputs
        split: prod.split option.split)

lemma generates_keyPair:
  "Region (GCP state) = r \<Longrightarrow>
   list_all (generates_for r) (events (Execute_keyPair u state (start w)))"
  by (simp add: Execute_keyPair_def call_def Let_def frames generates_terraform
        split: prod.split option.split)

lemma generates_validate:
  "Region (GCP state) = r \<Longrightarrow>
   list_all (generates_for r) (events (Execute_validate u state (start w)))"
  by (simp add: Execute_validate_def call_def Let_def frames generates_keyPair
        split: prod.split option.split)

text \<open>A director document that is populated is kept.\<close>

lemma bosh_kept_cloudConfig:
  "bosh_kept b (events (Execute_cloudConfig u state net sub itag (start w)))"
  by (simp add: Execute_cloudConfig_def call_def Let_def frames
        split: prod.split option.split)

lemma bosh_kept_deploy:
  "BOSH state = b \<Longrightarrow>
   \<not> BOSH_IsEmpty u b \<Longrightarrow>
   bosh_kept b (events (Execute_deploy u state ip net sub tag itag addr (start w)))"
  by (simp add: Execute_deploy_def call_def Let_def frames bosh_kept_cloudConfig
        split: prod.split option.split)

lemma bosh_kept_outputs:
  "BOSH state = b \<Longrightarrow>
   \<not> BOSH_IsEmpty u b \<Longrightarrow>
   bosh_kept b (events (Execute_outputs u state (start w)))"
  by (simp add: Execute_outputs_def call_def Let_def frames bosh_kept_deploy
        split: prod.split option.split)

lemma bosh_kept_terraform:
  "BOSH state = b \<Longrightarrow>
   \<not> BOSH_IsEmpty u b \<Longrightarrow>
   bosh_kept b (events (Execute_terraform u state (start w)))"
  by (simp add: Execute_terraform_def call_def Let_def frames bosh_kept_outputs
        split: prod.split option.split)

lemma bosh_kept_keyPair:
  "BOSH state = b \<Longrightarrow>
   \<not> BOSH_IsEmpty u b \<Longrightarrow>
   bosh_kept b (events (Execute_keyPair u state (start w)))"
  by (simp add: Execute_keyPair_def call_def Let_def frames bosh_kept_terraform
        split: prod.split option.split)

lemma bosh_kept_validate:
  "BOSH state = b \<Longrightarrow>
   \<not> BOSH_IsEmpty u b \<Longrightarrow>
   bosh_kept b (events (Execute_validate u state (start w)))"
  by (simp add: Execute_validate_def call_def Let_def frames bosh_kept_keyPair
        split: prod.split option.split)

section \<open>Whole runs\<close>

lemmas first_stage = up_def Execute_staged parseUpConfig_def call_def Let_def frames

lemma up_envid:
  "list_all (\<lambda>s. EnvID s = EnvID st) (persisted (snd (up u cfg st w)))"
  by (simp add: first_stage envid_validate split: prod.split option.split)

lemma up_checkpointed:
  "checkpointed (snd (up u cfg st w))"
  by (simp add: first_stage checkpointed_validate split: prod.split option.split)

lemma order_keyPair_fresh:
  "KeyPair_IsEmpty u (KeyPair state) \<Longrightarrow>
   prefix (milestones (events (Execute_keyPair u state (start w))))
     [MUpdate, MSet, MApply, MSet, MDeploy, MSet]"
  by (simp add: Execute_keyPair_def call_def Let_def frames order_terraform
        split: prod.split option.split)

lemma order_keyPair_kept:
  "\<not> KeyPair_IsEmpty u (KeyPair state) \<Longrightarrow>
   prefix (milestones (events (Execute_keyPair u state (start w))))
     [MApply, MSet, MDeploy, MSet]"
  by (simp add: Execute_keyPair_def call_def Let_def frames order_terraform
        split: prod.split option.split)

lemma order_validate:
  "KeyPair state = k \<Longrightarrow>
   prefix (milestones (events (Execute_validate u state (start w))))
     (pipeline (KeyPair_IsEmpty u k))"
  by (simp add: Execute_validate_def call_def Let_def frames pipeline_def
        order_keyPair_fresh order_keyPair_kept split: prod.split option.split)

lemma up_order:
  "prefix (milestones (snd (up u cfg st w))) (pipeline (KeyPair_IsEmpty u (KeyPair st)))"
  by (simp add: first_stage order_validate split: prod.split option.split)

lemma agrees_refl [simp]: "agrees s s"
  by (simp add: agrees_def)

lemma first_persisted_validate:
  "first_persisted (events (Execute_validate u state (start w))) =
     (if validateState state = None then Some state else None)"
  by (simp add: Execute_validate_def call_def Let_def frames split: prod.split option.split)

lemma up_reflects:
  "case first_persisted (snd (up u cfg st w)) of
     None \<Rightarrow> True
   | Some s \<Rightarrow> credentialed cfg st s \<and> reflects s (snd (up u cfg st w))"
  by (simp add: first_stage credentialed_def first_persisted_validate reflects_validate
        split: prod.split option.split)

lemma up_keypair_stored:
  "keypair_stored (KeyPair st) (snd (up u cfg st w))"
  by (simp add: first_stage keypair_stored_validate split: prod.split option.split)

lemma up_generates:
  "list_all (generates_for (region_of cfg st)) (snd (up u cfg st w))"
  by (simp add: first_stage region_of_def generates_validate split: prod.split option.split)

lemma up_bosh_kept:
  "\<not> BOSH_IsEmpty u (BOSH st) \<Longrightarrow> bosh_kept (BOSH st) (snd (up u cfg st w))"
  by (simp add: first_stage bosh_kept_validate split: prod.split option.split)

subsection \<open>Calls of the keypair generator\<close>

lemma filter_none: "list_all (\<lambda>e. \<not> P e) es \<Longrightarrow> filter P es = []"
  by (induction es) auto

lemma no_Update_keyPair:
  "\<not> KeyPair_IsEmpty u (KeyPair state) \<Longrightarrow>
   list_all (\<lambda>e. \<not> is_Update e) (events (Execute_keyPair u state (start w)))"
  by (simp add: Execute_keyPair_def call_def Let_def frames no_Update_terraform
        split: prod.split option.split)

lemma one_Update_keyPair:
  "KeyPair_IsEmpty u (KeyPair state) \<Longrightarrow>
   length (filter is_Update (events (Execute_keyPair u state (start w)))) = 1"
  by (simp add: Execute_keyPair_def call_def Let_def frames
        filter_none [OF no_Update_terraform] split: prod.split option.split)

lemma no_Update_validate:
  "\<not> KeyPair_IsEmpty u (KeyPair state) \<Longrightarrow>
   list_all (\<lambda>e. \<not> is_Update e) (events (Execute_validate u state (start w)))"
  by (simp add: Execute_validate_def call_def Let_def frames no_Update_keyPair
        split: prod.split option.split)

lemma one_Update_validate:
  "KeyPair_IsEmpty u (KeyPair state) \<Longrightarrow>
   list_ex SetConfig_ok (events (Execute_validate u state (start w))) \<longrightarrow>
   length (filter is_Update (events (Execute_validate u state (start w)))) = 1"
  by (simp add: Execute_validate_def call_def Let_def frames one_Update_keyPair
        split: prod.split option.split)

lemma none_Update_validate:
  "\<not> list_ex SetConfig_ok (events (Execute_validate u state (start w))) \<longrightarrow>
   filter is_Update (events (Execute_validate u state (start w))) = []"
  by (simp add: Execute_validate_def call_def Let_def frames
        split: prod.split option.split)

lemma up_no_Update:
  "\<not> KeyPair_IsEmpty u (KeyPair st) \<Longrightarrow>
   list_all (\<lambda>e. \<not> is_Update e) (snd (up u cfg st w))"
  by (simp add: first_stage no_Update_validate split: prod.split option.split)

lemma up_one_Update:
  "KeyPair_IsEmpty u (KeyPair st) \<Longrightarrow>
   length (filter is_Update (snd (up u cfg st w))) =
     (if list_ex SetConfig_ok (snd (up u cfg st w)) then 1 else 0)"
  by (simp add: first_stage one_Update_validate [rule_format]
        none_Update_validate [rule_format] split: prod.split option.split)

lemma keypair_stored_same:
  "keypair_stored k es \<Longrightarrow> list_all (\<lambda>e. \<not> is_Update e) es \<Longrightarrow>
   list_all (\<lambda>s. KeyPair s = k) (persisted es)"
  by (induction k es rule: keypair_stored.induct) auto

subsection \<open>The director document\<close>

lemma identity_kept [simp]:
  "identity (b\<lparr>State := x, Manifest := y\<rparr>) = identity b"
  by (simp add: identity_def)

lemma bosh_kept_identity:
  "bosh_kept b es \<Longrightarrow> list_all (\<lambda>s. identity (BOSH s) = identity b) (persisted es)"
  by (induction b es rule: bosh_kept.induct) auto

subsection \<open>A failing apply\<close>

lemma apply_error_final_Nil [simp]: "apply_error_final t r []"
  by (simp add: apply_error_final_def)

lemma apply_error_final_Cons:
  "\<not> is_Apply e \<Longrightarrow> list_all (\<lambda>s. TFState s = t) (persisted [e]) \<Longrightarrow>
   apply_error_final t r es \<Longrightarrow> apply_error_final t r (e # es)"
  unfolding apply_error_final_def
  by (cases e) (auto split: if_splits)

lemma apply_error_final_terraform:
  "TFState state = t \<Longrightarrow>
   apply_error_final t (fst (Execute_terraform u state (start w)))
     (events (Execute_terraform u state (start w)))"
  by (auto simp add: Execute_terraform_def call_def Let_def frames no_Apply_outputs
        apply_error_final_def split: prod.split option.split)

lemma apply_error_final_keyPair:
  "TFState state = t \<Longrightarrow>
   apply_error_final t (fst (Execute_keyPair u state (start w)))
     (events (Execute_keyPair u state (start w)))"
  by (simp add: Execute_keyPair_def call_def Let_def frames
        apply_error_final_Cons apply_error_final_terraform
        split: prod.split option.split)

lemma apply_error_final_validate:
  "TFState state = t \<Longrightarrow>
   apply_error_final t (fst (Execute_validate u state (start w)))
     (events (Execute_validate u state (start w)))"
  by (simp add: Execute_validate_def call_def Let_def frames
        apply_error_final_Cons apply_error_final_keyPair
        split: prod.split option.split)

lemma up_apply_error_final:
  "apply_error_final (TFState st) (fst (up u cfg st w)) (snd (up u cfg st w))"
  by (simp add: first_stage apply_error_final_Cons apply_error_final_validate
        split: prod.split option.split)

section \<open>The sample runs\<close>

lemmas run_defs = up_def Execute_staged Execute_validate_def Execute_keyPair_def
  Execute_terraform_def Execute_outputs_def Execute_deploy_def Execute_cloudConfig_def
  parseUpConfig_def call_def Let_def start_def events_def validateState_def empty_config_def
  happy_def apply_fails_def given_def given_london_def no_config_def fresh_def deployed_def
  zeroBOSH_def emptyGCP_def

lemmas query_defs = StateQuery_Execute_def propertyValue_def getEIP_def CheckFastFails_def
  query_def query_invalid_def no_director_def deployed_def zeroBOSH_def
  EnvIDPropertyName_def JumpboxAddressPropertyName_def DirectorUsernamePropertyName_def
  DirectorPasswordPropertyName_def DirectorAddressPropertyName_def
  DirectorCACertPropertyName_def

text \<open>The run in which the applier fails: the state is persisted once, before the apply,
  with the terraform state it came with.\<close>

lemma apply_fails_run:
  "up apply_fails no_config deployed 0 =
     (Some ''terraform apply failed'',
      [EvSet deployed None,
       EvSetConfig ''{}'' None,
       EvTempDir (''/tmp/bbl'', None),
       EvWriteFile ''/tmp/bbl/credentials.json'' ''{}'' None,
       EvApply ''/tmp/bbl/credentials.json'' ''bbl-env-lake'' ''acme'' ''us-east1-b''
         ''us-east1'' ''template'' ''tfstate-old''
         (''tfstate-partial'', Some ''terraform apply failed'')])"
  by (simp add: run_defs)

section \<open>The claims\<close>

text \<open>
  Claim C1.  In every run of \<open>GCPUp.Execute\<close> the state is persisted by
  \<open>stateStore.Set\<close> after each step that changes what the cloud holds and before the
  next step runs, in the order: IAAS and credentials set, keypair generated, terraform
  applied, director deployed.  So: every update, apply and deploy that returned without
  error is followed at once by a persist of a state that holds what it returned; the
  persists and these calls come in the order of the pipeline; and the first state
  persisted is the one with the credentials set, and every state persisted reflects
  exactly the steps completed before it.
\<close>

theorem C1_persisted_after_each_step:
  "checkpointed (snd (up u cfg st w))
   \<and> prefix (milestones (snd (up u cfg st w))) (pipeline (KeyPair_IsEmpty u (KeyPair st)))
   \<and> (case first_persisted (snd (up u cfg st w)) of
        None \<Rightarrow> True
      | Some s \<Rightarrow> credentialed cfg st s \<and> reflects s (snd (up u cfg st w)))"
  using up_checkpointed [where u = u and cfg = cfg and st = st and w = w]
    up_order [where u = u and cfg = cfg and st = st and w = w]
    up_reflects [where u = u and cfg = cfg and st = st and w = w]
  by simp

text \<open>A first run with all collaborators succeeding goes through the whole pipeline.\<close>

theorem C1_witness:
  "checkpointed (snd (up happy given fresh 0))
   \<and> milestones (snd (up happy given fresh 0)) = [MSet, MUpdate, MSet, MApply, MSet, MDeploy, MSet]
   \<and> map TFState (persisted (snd (up happy given fresh 0)))
       = ['''', '''', ''tfstate-new'', ''tfstate-new'']
   \<and> map (State \<circ> BOSH) (persisted (snd (up happy given fresh 0)))
       = ['''', '''', '''', ''bosh-state-new'']"
  using C1_persisted_after_each_step [where u = happy and cfg = given and st = fresh and w = 0]
  by (simp add: run_defs)

text \<open>
  Claim C2, as amended.  When \<open>terraformApplier.Apply\<close> returns an error, the call is the
  last of the run and the run returns that error; the state blob returned with the
  error is not persisted: every state the run persisted holds the terraform state the
  run started with.
\<close>

theorem C2_apply_error_returned_blob_dropped:
  "EvApply a1 a2 a3 a4 a5 a6 a7 (blob, Some err) \<in> set (snd (up u cfg st w)) \<Longrightarrow>
   fst (up u cfg st w) = Some err
   \<and> last (snd (up u cfg st w)) = EvApply a1 a2 a3 a4 a5 a6 a7 (blob, Some err)
   \<and> list_all (\<lambda>s. TFState s = TFState st) (persisted (snd (up u cfg st w)))"
  using up_apply_error_final [where u = u and cfg = cfg and st = st and w = w]
  unfolding apply_error_final_def by blast

text \<open>The claim as stated fails: the applier reports \<open>tfstate-partial\<close> with its error,
  and no state that holds it is persisted.\<close>

theorem C2_counterexample:
  "fst (up apply_fails no_config deployed 0) = Some ''terraform apply failed''
   \<and> EvApply ''/tmp/bbl/credentials.json'' ''bbl-env-lake'' ''acme'' ''us-east1-b''
        ''us-east1'' ''template'' ''tfstate-old''
        (''tfstate-partial'', Some ''terraform apply failed'')
      \<in> set (snd (up apply_fails no_config deployed 0))
   \<and> map TFState (persisted (snd (up apply_fails no_config deployed 0))) = [''tfstate-old'']"
  by (simp add: apply_fails_run) (simp add: deployed_def)

theorem C2_witness:
  "EvApply ''/tmp/bbl/credentials.json'' ''bbl-env-lake'' ''acme'' ''us-east1-b''
        ''us-east1'' ''template'' ''tfstate-old''
        (''tfstate-partial'', Some ''terraform apply failed'')
      \<in> set (snd (up apply_fails no_config deployed 0))
   \<and> fst (up apply_fails no_config deployed 0) = Some ''terraform apply failed''
   \<and> list_all (\<lambda>s. TFState s = ''tfstate-old'')
        (persisted (snd (up apply_fails no_config deployed 0)))"
proof -
  have here:
    "EvApply ''/tmp/bbl/credentials.json'' ''bbl-env-lake'' ''acme'' ''us-east1-b''
        ''us-east1'' ''template'' ''tfstate-old''
        (''tfstate-partial'', Some ''terraform apply failed'')
      \<in> set (snd (up apply_fails no_config deployed 0))"
    by (simp add: apply_fails_run)
  have "TFState deployed = ''tfstate-old''"
    by (simp add: deployed_def)
  with here C2_apply_error_returned_blob_dropped [OF here] show ?thesis
    by simp
qed

text \<open>
  Claim C3, as amended.  When \<open>state.KeyPair\<close> is not empty, a run never calls
  \<open>keyPairUpdater.Update\<close>, and every state it persists holds the keypair it came with.
  When \<open>state.KeyPair\<close> is empty, a run calls the generator once if it gets as far as
  the keypair step, that is if \<open>gcpProvider.SetConfig\<close> has returned without error,
  and not at all otherwise; a keypair the generator returns without error is persisted
  at once and held by every state persisted after it.
\<close>

theorem C3_keypair_generated_once_if_reached:
  "(\<not> KeyPair_IsEmpty u (KeyPair st) \<longrightarrow>
      filter is_Update (snd (up u cfg st w)) = []
      \<and> list_all (\<lambda>s. KeyPair s = KeyPair st) (persisted (snd (up u cfg st w))))
   \<and> (KeyPair_IsEmpty u (KeyPair st) \<longrightarrow>
      length (filter is_Update (snd (up u cfg st w)))
        = (if list_ex SetConfig_ok (snd (up u cfg st w)) then 1 else 0)
      \<and> keypair_stored (KeyPair st) (snd (up u cfg st w)))"
  using up_no_Update [where u = u and cfg = cfg and st = st and w = w]
    up_one_Update [where u = u and cfg = cfg and st = st and w = w]
    up_keypair_stored [where u = u and cfg = cfg and st = st and w = w]
    keypair_stored_same [where k = "KeyPair st" and es = "snd (up u cfg st w)"]
    filter_none [where P = is_Update and es = "snd (up u cfg st w)"]
  by blast

text \<open>The claim as stated fails: in a fresh directory with no credentials given the
  keypair is empty, and the run stops at the validation without calling the generator.\<close>

theorem C3_counterexample:
  "KeyPair_IsEmpty happy (KeyPair fresh)
   \<and> up happy no_config fresh 0 = (Some ''GCP service account key must be provided'', [])
   \<and> length (filter is_Update (snd (up happy no_config fresh 0))) = 0"
  by (simp add: run_defs)

theorem C3_witness:
  "\<not> KeyPair_IsEmpty happy (KeyPair deployed)
   \<and> filter is_Update (snd (up happy no_config deployed 0)) = []
   \<and> map (PublicKey \<circ> KeyPair) (persisted (snd (up happy no_config deployed 0)))
       = [''ssh-rsa OLD'', ''ssh-rsa OLD'', ''ssh-rsa OLD'']
   \<and> KeyPair_IsEmpty happy (KeyPair fresh)
   \<and> list_ex SetConfig_ok (snd (up happy given fresh 0))
   \<and> length (filter is_Update (snd (up happy given fresh 0))) = 1
   \<and> map (PublicKey \<circ> KeyPair) (persisted (snd (up happy given fresh 0)))
       = ['''', ''ssh-rsa AAAA'', ''ssh-rsa AAAA'', ''ssh-rsa AAAA'']"
  using C3_keypair_generated_once_if_reached
      [where u = happy and cfg = no_config and st = deployed and w = 0]
    C3_keypair_generated_once_if_reached
      [where u = happy and cfg = given and st = fresh and w = 0]
  by (simp add: run_defs)

text \<open>
  Claim C4, as amended.  \<open>validateState\<close> returns an error exactly when a required
  credential field is missing, and the error names the first missing field only, in the
  order service account key, project ID, region, zone.
\<close>

theorem C4_first_missing_field_reported:
  "validateState state =
     (case missing state of
        [] \<Rightarrow> None
      | n # ns \<Rightarrow> Some (''GCP '' @ n @ '' must be provided''))"
  by (simp add: validateState_def missing_def required_def)

text \<open>The claim as stated fails: a fresh state lacks all four fields, and the error
  mentions the service account key and not the project ID.\<close>

theorem C4_counterexample:
  "missing fresh = [''service account key'', ''project ID'', ''region'', ''zone'']
   \<and> validateState fresh = Some ''GCP service account key must be provided''
   \<and> \<not> mentions ''GCP service account key must be provided'' ''project ID''"
  by (simp add: missing_def required_def validateState_def fresh_def emptyGCP_def)

theorem C4_witness:
  "missing (deployed\<lparr>GCP := (GCP deployed)\<lparr>Region := '''', Zone := ''''\<rparr>\<rparr>) = [''region'', ''zone'']
   \<and> validateState (deployed\<lparr>GCP := (GCP deployed)\<lparr>Region := '''', Zone := ''''\<rparr>\<rparr>)
       = Some ''GCP region must be provided''
   \<and> validateState deployed = None"
  using C4_first_missing_field_reported
      [where state = "deployed\<lparr>GCP := (GCP deployed)\<lparr>Region := '''', Zone := ''''\<rparr>\<rparr>"]
    C4_first_missing_field_reported [where state = deployed]
  by (simp add: missing_def required_def deployed_def)

text \<open>
  Claim C5, as amended.  The zones of a region are looked up in a static table;
  \<open>getAZs\<close> returns no error, and the empty list exactly for a region the table does
  not hold; and whatever the region, the cloud config generator is called with the
  list \<open>getAZs\<close> returns for it.
\<close>

theorem C5_absent_region_gives_no_zones:
  "(getAZs region = [] \<longleftrightarrow> region \<notin> set (map fst azs_table))
   \<and> list_all (generates_for (region_of cfg st)) (snd (up u cfg st w))"
  using up_generates [where u = u and cfg = cfg and st = st and w = w]
  by (auto simp add: getAZs_def azs_table_def)

text \<open>The claim as stated fails: \<open>europe-west2\<close> is not in the table, and the run
  for it succeeds, with the generator called with no zones.\<close>

theorem C5_counterexample:
  "getAZs ''europe-west2'' = []
   \<and> fst (up happy given_london fresh 0) = None
   \<and> EvGenerate \<lparr>AZs = [], Tags = [''the-internal_tag_name''],
                   cciNetworkName = ''the-network_name'',
                   cciSubnetworkName = ''the-subnetwork_name''\<rparr> (''cloud-config'', None)
      \<in> set (snd (up happy given_london fresh 0))"
  by (simp add: run_defs getAZs_def azs_table_def)

theorem C5_witness:
  "''europe-west2'' \<notin> set (map fst azs_table)
   \<and> getAZs ''europe-west2'' = []
   \<and> getAZs ''us-east1'' = [''us-east1-b'', ''us-east1-c'', ''us-east1-d'']
   \<and> list_all (generates_for ''europe-west2'') (snd (up happy given_london fresh 0))"
  using C5_absent_region_gives_no_zones
      [where region = "''europe-west2''" and u = happy and cfg = given_london and st = fresh
         and w = 0]
    C5_absent_region_gives_no_zones
      [where region = "''us-east1''" and u = happy and cfg = given_london and st = fresh
         and w = 0]
  by (simp add: region_of_def empty_config_def given_london_def azs_table_def getAZs_def)

text \<open>
  Claim C6, as amended.  For the director-address query on a state with
  \<open>NoDirector\<close> set: on AWS, when the stack is described without error, it prints
  \<open>https://<BOSHEIP output of the stack>:25555\<close>; on GCP, when the terraform outputs
  are read without error and \<open>external_ip\<close> is a string among them, it prints
  \<open>https://<external_ip>:25555\<close>; on any other IAAS it returns the error
  \<open>Could not find external IP for given IAAS\<close>.  On a state with \<open>NoDirector\<close> not set
  it prints \<open>state.BOSH.DirectorAddress\<close>, when that is not empty.
\<close>

theorem C6_director_address:
  assumes "propertyName s = DirectorAddressPropertyName"
  shows
    "(NoDirector state \<and> IAAS state = ''aws''
        \<and> infrastructureManager_Describe s (Name (Stack state)) = (stack, None) \<longrightarrow>
      StateQuery_Execute s flags state =
        Return (None, [''https://''
                       @ (case Outputs stack ''BOSHEIP'' of None \<Rightarrow> '''' | Some v \<Rightarrow> v)
                       @ '':25555'']))
     \<and> (NoDirector state \<and> IAAS state = ''gcp''
        \<and> terraformManager_GetOutputs s state = (outputs, None)
        \<and> outputs ''external_ip'' = Some (IString ip) \<longrightarrow>
      StateQuery_Execute s flags state = Return (None, [''https://'' @ ip @ '':25555'']))
     \<and> (NoDirector state \<and> IAAS state \<noteq> ''aws'' \<and> IAAS state \<noteq> ''gcp'' \<longrightarrow>
      StateQuery_Execute s flags state =
        Return (Some ''Could not find external IP for given IAAS'', []))
     \<and> (\<not> NoDirector state \<and> DirectorAddress (BOSH state) \<noteq> '''' \<longrightarrow>
      StateQuery_Execute s flags state = Return (None, [DirectorAddress (BOSH state)]))"
  using assms
  by (simp add: StateQuery_Execute_def propertyValue_def getEIP_def
        DirectorAddressPropertyName_def JumpboxAddressPropertyName_def)

text \<open>The claim as stated fails: on Azure the query returns an error.\<close>

theorem C6_counterexample:
  "NoDirector (no_director ''azure'')
   \<and> StateQuery_Execute (query DirectorAddressPropertyName) [] (no_director ''azure'')
       = Return (Some ''Could not find external IP for given IAAS'', [])"
  by (simp add: query_defs)

theorem C6_witness:
  "propertyName (query DirectorAddressPropertyName) = DirectorAddressPropertyName
   \<and> NoDirector (no_director ''aws'')
   \<and> StateQuery_Execute (query DirectorAddressPropertyName) [] (no_director ''aws'')
       = Return (None, [''https://52.0.0.9:25555''])
   \<and> StateQuery_Execute (query DirectorAddressPropertyName) [] (no_director ''gcp'')
       = Return (None, [''https://35.1.2.3:25555''])
   \<and> StateQuery_Execute (query DirectorAddressPropertyName) [] (no_director ''azure'')
       = Return (Some ''Could not find external IP for given IAAS'', [])
   \<and> \<not> NoDirector deployed
   \<and> StateQuery_Execute (query DirectorAddressPropertyName) [] deployed
       = Return (None, [''https://10.0.0.6:25555''])"
proof -
  have name: "propertyName (query DirectorAddressPropertyName) = DirectorAddressPropertyName"
    by (simp add: query_def)
  show ?thesis
    using name
      C6_director_address [OF name, where state = "no_director ''aws''" and flags = "[]"
        and stack = "\<lparr>Outputs = [''BOSHEIP'' \<mapsto> ''52.0.0.9'']\<rparr>"]
      C6_director_address [OF name, where state = "no_director ''gcp''" and flags = "[]"
        and outputs = "[''external_ip'' \<mapsto> IString ''35.1.2.3'']"
        and ip = "''35.1.2.3''"]
      C6_director_address [OF name, where state = "no_director ''azure''" and flags = "[]"]
      C6_director_address [OF name, where state = deployed and flags = "[]"]
    by (simp add: query_def no_director_def deployed_def)
qed

text \<open>
  Claim C7, as amended.  \<open>StateQuery.CheckFastFails\<close> returns the error of the state
  validator when that fails, whatever the property.  When the validator passes, for
  every state with \<open>NoDirector\<close> set it returns the error
  \<open>Error BBL does not manage this director.\<close> exactly when the property is neither the
  director address nor the environment id, and no error for those two.
\<close>

theorem C7_fast_fail_once_validated:
  "(stateValidator_Validate s = Some err \<longrightarrow> CheckFastFails s flags state = Some err)
   \<and> (stateValidator_Validate s = None \<and> NoDirector state \<longrightarrow>
        (CheckFastFails s flags state = Some ''Error BBL does not manage this director.''
           \<longleftrightarrow> propertyName s \<noteq> DirectorAddressPropertyName
               \<and> propertyName s \<noteq> EnvIDPropertyName)
        \<and> (propertyName s = DirectorAddressPropertyName \<or> propertyName s = EnvIDPropertyName
             \<longrightarrow> CheckFastFails s flags state = None))"
  by (simp add: CheckFastFails_def)

text \<open>The claim as stated fails: with \<open>NoDirector\<close> set and the director address
  queried, the check returns an error when the state validator does.\<close>

theorem C7_counterexample:
  "NoDirector (no_director ''gcp'')
   \<and> propertyName (query_invalid DirectorAddressPropertyName) = DirectorAddressPropertyName
   \<and> CheckFastFails (query_invalid DirectorAddressPropertyName) [] (no_director ''gcp'')
       = Some ''bbl-state.json not found''"
  by (simp add: query_defs)

theorem C7_witness:
  "stateValidator_Validate (query DirectorPasswordPropertyName) = None
   \<and> NoDirector (no_director ''gcp'')
   \<and> CheckFastFails (query DirectorPasswordPropertyName) [] (no_director ''gcp'')
       = Some ''Error BBL does not manage this director.''
   \<and> CheckFastFails (query DirectorAddressPropertyName) [] (no_director ''gcp'') = None
   \<and> CheckFastFails (query EnvIDPropertyName) [] (no_director ''gcp'') = None
   \<and> CheckFastFails (query_invalid EnvIDPropertyName) [] (no_director ''gcp'')
       = Some ''bbl-state.json not found''"
  using C7_fast_fail_once_validated
      [where s = "query DirectorPasswordPropertyName" and flags = "[]"
         and state = "no_director ''gcp''"]
    C7_fast_fail_once_validated
      [where s = "query DirectorAddressPropertyName" and flags = "[]" and state = "no_director ''gcp''"]
    C7_fast_fail_once_validated
      [where s = "query EnvIDPropertyName" and flags = "[]" and state = "no_director ''gcp''"]
    C7_fast_fail_once_validated
      [where s = "query_invalid EnvIDPropertyName" and err = "''bbl-state.json not found''"
         and flags = "[]" and state = "no_director ''gcp''"]
  by (simp add: query_defs)

text \<open>
  Claim C8.  When a run deploys a director for a state whose director document is
  populated already, every state it persists holds the director name, address, user,
  password, CA, certificate, private key and credentials the state came with; of the
  director document only \<open>State\<close> and \<open>Manifest\<close> are replaced, by those of the deploy
  output.
\<close>

theorem C8_redeploy_keeps_director:
  "\<not> BOSH_IsEmpty u (BOSH st) \<Longrightarrow>
   list_all (\<lambda>s. identity (BOSH s) = identity (BOSH st)) (persisted (snd (up u cfg st w)))
   \<and> bosh_kept (BOSH st) (snd (up u cfg st w))"
  using up_bosh_kept [where u = u and cfg = cfg and st = st and w = w]
    bosh_kept_identity [where b = "BOSH st" and es = "snd (up u cfg st w)"]
  by blast

theorem C8_witness:
  "\<not> BOSH_IsEmpty happy (BOSH deployed)
   \<and> map BOSH (persisted (snd (up happy no_config deployed 0)))
       = [BOSH deployed, BOSH deployed,
          (BOSH deployed)\<lparr>State := ''bosh-state-new'', Manifest := ''manifest-new''\<rparr>]
   \<and> list_all (\<lambda>s. identity (BOSH s) = identity (BOSH deployed))
        (persisted (snd (up happy no_config deployed 0)))"
proof -
  have populated: "\<not> BOSH_IsEmpty happy (BOSH deployed)"
    by (simp add: happy_def deployed_def zeroBOSH_def)
  have "map BOSH (persisted (snd (up happy no_config deployed 0)))
       = [BOSH deployed, BOSH deployed,
          (BOSH deployed)\<lparr>State := ''bosh-state-new'', Manifest := ''manifest-new''\<rparr>]"
    by (simp add: run_defs)
  with populated C8_redeploy_keeps_director [OF populated, where cfg = no_config and w = 0] show ?thesis
    by simp
qed

text \<open>
  Claim C9.  For every input state with a non-empty \<open>EnvID\<close>, a run never changes it:
  every state persisted during the run holds the \<open>EnvID\<close> of the input state.
\<close>

theorem C9_EnvID_never_modified:
  "EnvID st \<noteq> '''' \<Longrightarrow>
   list_all (\<lambda>s. EnvID s = EnvID st) (persisted (snd (up u cfg st w)))"
  using up_envid [where u = u and cfg = cfg and st = st and w = w] by simp

theorem C9_witness:
  "EnvID fresh \<noteq> ''''
   \<and> length (persisted (snd (up happy given fresh 0))) = 4
   \<and> list_all (\<lambda>s. EnvID s = ''bbl-env-lake'') (persisted (snd (up happy given fresh 0)))"
proof -
  have set: "EnvID fresh \<noteq> ''''"
    by (simp add: fresh_def)
  have "length (persisted (snd (up happy given fresh 0))) = 4"
    by (simp add: run_defs)
  moreover have "EnvID fresh = ''bbl-env-lake''"
    by (simp add: fresh_def)
  ultimately show ?thesis
    using set C9_EnvID_never_modified [OF set, where u = happy and cfg = given and w = 0] by simp
qed

text \<open>
  Claim C10.  For every state query, when the property value resolves to the empty
  string, \<open>Execute\<close> returns the error
  \<open>Could not retrieve <property>, please make sure you are targeting the proper state dir.\<close>
  and prints nothing; it prints the value and returns no error exactly when the value
  is not empty.  The jumpbox address resolves to the empty string when the jumpbox is
  not enabled, and the director's user, password and CA to the fields of the state,
  empty or not.
\<close>

theorem C10_empty_value_is_an_error:
  "(propertyValue s state = Return (v, None) \<longrightarrow>
      StateQuery_Execute s flags state =
        (if v = ''''
         then Return (Some (''Could not retrieve '' @ propertyName s
                @ '', please make sure you are targeting the proper state dir.''), [])
         else Return (None, [v])))
   \<and> (StateQuery_Execute s flags state = Return (None, out) \<longrightarrow>
        (\<exists>v. v \<noteq> '''' \<and> propertyValue s state = Return (v, None) \<and> out = [v]))
   \<and> (propertyName s = JumpboxAddressPropertyName \<and> \<not> Enabled (Jumpbox state) \<longrightarrow>
        propertyValue s state = Return ('''', None))
   \<and> (propertyName s = DirectorUsernamePropertyName \<longrightarrow>
        propertyValue s state = Return (DirectorUsername (BOSH state), None))
   \<and> (propertyName s = DirectorPasswordPropertyName \<longrightarrow>
        propertyValue s state = Return (DirectorPassword (BOSH state), None))
   \<and> (propertyName s = DirectorCACertPropertyName \<longrightarrow>
        propertyValue s state = Return (DirectorSSLCA (BOSH state), None))"
  by (auto simp add: StateQuery_Execute_def propertyValue_def
        JumpboxAddressPropertyName_def DirectorAddressPropertyName_def
        DirectorUsernamePropertyName_def DirectorPasswordPropertyName_def
        DirectorCACertPropertyName_def
        split: outcome.splits prod.splits option.splits if_splits)

theorem C10_witness:
  "propertyValue (query JumpboxAddressPropertyName) deployed = Return ('''', None)
   \<and> StateQuery_Execute (query JumpboxAddressPropertyName) [] deployed
       = Return (Some ''Could not retrieve jumpbox address, please make sure you are targeting the proper state dir.'', [])
   \<and> StateQuery_Execute (query DirectorPasswordPropertyName) [] (no_director ''gcp'')
       = Return (Some ''Could not retrieve director password, please make sure you are targeting the proper state dir.'', [])
   \<and> propertyValue (query DirectorUsernamePropertyName) deployed = Return (''user-old'', None)
   \<and> StateQuery_Execute (query DirectorUsernamePropertyName) [] deployed
       = Return (None, [''user-old''])"
  using C10_empty_value_is_an_error
      [where s = "query JumpboxAddressPropertyName" and state = deployed and v = "''''"
         and flags = "[]" and out = "[]"]
    C10_empty_value_is_an_error
      [where s = "query DirectorPasswordPropertyName" and state = "no_director ''gcp''"
         and v = "''''" and flags = "[]" and out = "[]"]
    C10_empty_value_is_an_error
      [where s = "query DirectorUsernamePropertyName" and state = deployed
         and v = "''user-old''" and flags = "[]" and out = "[''user-old'']"]
  by (simp add: query_defs)

end
